theory Spec2Isabelle
  imports Complex_Main
begin

section \<open>Values carried by requests and responses\<close>

text \<open>
  The handlers of \<^verbatim>\<open>index.js\<close> read untyped JSON from the request body and write JSON to
  the response.  JSON numbers are taken as rationals (the rounding of doubles is not
  modelled); \<open>JUndefined\<close> is the value of a property that is absent.
\<close>

datatype jv =
    JUndefined
  | JNull
  | JBool bool
  | JNum rat
  | JStr string
  | JArr "jv list"
  | JObj "(string \<times> jv) list"

text \<open>JavaScript truthiness, as used by every \<^verbatim>\<open>!x\<close> and \<^verbatim>\<open>if (x)\<close> of the source.\<close>

fun truthy :: "jv \<Rightarrow> bool" where
  "truthy JUndefined = False"
| "truthy JNull = False"
| "truthy (JBool b) = b"
| "truthy (JNum q) = (q \<noteq> 0)"
| "truthy (JStr s) = (s \<noteq> [])"
| "truthy (JArr xs) = True"
| "truthy (JObj kvs) = True"

text \<open>Exceptions that reach the \<^verbatim>\<open>catch\<close> block of a handler.\<close>

datatype exn = TypeError | CastError | ValidationError | DuplicateKey | BcryptError | S3Error

text \<open>
  \<^verbatim>\<open>const { a, b } = req.body\<close>: the body parser always leaves an object or an array in
  \<^verbatim>\<open>req.body\<close>, so destructuring never throws; a missing property is \<open>undefined\<close>.
\<close>

fun lookup :: "(string \<times> jv) list \<Rightarrow> string \<Rightarrow> jv" where
  "lookup [] k = JUndefined"
| "lookup ((k', v) # kvs) k = (if k' = k then v else lookup kvs k)"

fun field :: "jv \<Rightarrow> string \<Rightarrow> jv" where
  "field (JObj kvs) k = lookup kvs k"
| "field _ k = JUndefined"

text \<open>
  \<^verbatim>\<open>item.productId\<close>: reading a property of \<open>null\<close> or \<open>undefined\<close> throws a TypeError;
  strings, numbers, booleans and arrays have no property of the names the source reads.
\<close>

fun get_prop :: "jv \<Rightarrow> string \<Rightarrow> exn + jv" where
  "get_prop JUndefined k = Inl TypeError"
| "get_prop JNull k = Inl TypeError"
| "get_prop (JObj kvs) k = Inr (lookup kvs k)"
| "get_prop _ k = Inr JUndefined"

text \<open>\<^verbatim>\<open>for (const item of products)\<close>: arrays and strings are iterable, nothing else is.\<close>

fun for_of :: "jv \<Rightarrow> exn + jv list" where
  "for_of (JArr xs) = Inr xs"
| "for_of (JStr s) = Inr (map (\<lambda>c. JStr [c]) s)"
| "for_of _ = Inl TypeError"

text \<open>\<^verbatim>\<open>Number.isInteger\<close>\<close>

fun Number_isInteger :: "jv \<Rightarrow> bool" where
  "Number_isInteger (JNum q) = (of_int \<lfloor>q\<rfloor> = q)"
| "Number_isInteger _ = False"

section \<open>Responses\<close>

record response =
  status :: nat
  body :: jv

definition json :: "nat \<Rightarrow> jv \<Rightarrow> response" where
  "json code b = \<lparr>status = code, body = b\<rparr>"

definition error_body :: "string \<Rightarrow> jv" where
  "error_body msg = JObj [(''error'', JStr msg)]"

section \<open>The libraries the handlers call\<close>

type_synonym oid = string

text \<open>
  mongoose, bcrypt, the S3 client and the JavaScript runtime are not part of the
  repository.  What the handlers need from them is a parameter of every handler:
  \<^item> \<open>isValid\<close>: \<^verbatim>\<open>mongoose.Types.ObjectId.isValid\<close>;
  \<^item> \<open>castObjectId\<close>: the cast of a value to an ObjectId (\<open>None\<close>: CastError);
  \<^item> \<open>castStringOther\<close>, \<open>castNumberOther\<close>: the casts of a value that is not already a
    string (a number) to the schema type String (Number);
  \<^item> \<open>queryOther\<close>: what a value that is not a string selects as the condition of a
    query on a String path, as a test of the stored string: an object of operators such as
    \<^verbatim>\<open>{"$ne": null}\<close> goes to the database as it is (\<open>None\<close>: CastError);
  \<^item> \<open>parseFloat\<close> (\<open>None\<close>: NaN);
  \<^item> \<open>base64decode\<close>: the bytes of \<^verbatim>\<open>Buffer.from(s, 'base64')\<close>;
  \<^item> \<open>bcrypt_hash\<close>, \<open>bcrypt_compare\<close> (\<open>None\<close>: the promise rejects);
  \<^item> \<open>s3_upload\<close>: time stamp, type and bytes to the Location (\<open>None\<close>: the upload fails);
  \<^item> \<open>toStringOther\<close>: the string a template literal makes of a number, array or object;
  \<^item> \<open>toISOString\<close>: the JSON form of a date;
  \<^item> \<open>message\<close>: the \<^verbatim>\<open>err.message\<close> of an exception.
\<close>

record lib =
  isValid :: "jv \<Rightarrow> bool"
  castObjectId :: "jv \<Rightarrow> oid option"
  castStringOther :: "jv \<Rightarrow> string option"
  castNumberOther :: "jv \<Rightarrow> rat option"
  queryOther :: "jv \<Rightarrow> (string \<Rightarrow> bool) option"
  parseFloat :: "jv \<Rightarrow> rat option"
  base64decode :: "string \<Rightarrow> string"
  bcrypt_hash :: "jv \<Rightarrow> string option"
  bcrypt_compare :: "jv \<Rightarrow> string \<Rightarrow> bool option"
  s3_upload :: "nat \<Rightarrow> string \<Rightarrow> string \<Rightarrow> string option"
  toStringOther :: "jv \<Rightarrow> string"
  toISOString :: "nat \<Rightarrow> string"
  message :: "exn \<Rightarrow> string"

text \<open>The schemas set no option on their String and Number paths: a string is stored as it is.\<close>

fun cast_string :: "lib \<Rightarrow> jv \<Rightarrow> string option" where
  "cast_string L (JStr s) = Some s"
| "cast_string L v = castStringOther L v"

fun cast_number :: "lib \<Rightarrow> jv \<Rightarrow> rat option" where
  "cast_number L (JNum q) = Some q"
| "cast_number L v = castNumberOther L v"

text \<open>A path of type String with \<^verbatim>\<open>required: true\<close> rejects the empty string.\<close>

definition required_string :: "lib \<Rightarrow> jv \<Rightarrow> string option" where
  "required_string L v =
     (case cast_string L v of
        None \<Rightarrow> None
      | Some s \<Rightarrow> if s = [] then None else Some s)"

text \<open>\<^verbatim>\<open>`${x}`\<close>\<close>

fun template :: "lib \<Rightarrow> jv \<Rightarrow> string" where
  "template L (JStr s) = s"
| "template L JUndefined = ''undefined''"
| "template L JNull = ''null''"
| "template L (JBool b) = (if b then ''true'' else ''false'')"
| "template L v = toStringOther L v"

text \<open>The \<^verbatim>\<open>catch\<close> block of a handler: status 500, its own error text, and the message.\<close>

definition caught :: "lib \<Rightarrow> string \<Rightarrow> exn \<Rightarrow> response" where
  "caught L msg e = json 500 (JObj [(''error'', JStr msg), (''details'', JStr (message L e))])"

section \<open>The collections\<close>

text \<open>\<^verbatim>\<open>userSchema\<close> and \<^verbatim>\<open>adminSchema\<close> have the same paths; one record serves both.\<close>

record account =
  acc_id :: oid
  firstName :: string
  secondName :: string
  email :: string
  password :: string
  profilePicture :: string

record image =
  img_id :: oid
  url :: string
  img_name :: string
  price :: rat
  description :: string

record line_item =
  productId :: oid
  quantity :: rat

record order_doc =
  ord_id :: oid
  userId :: oid
  products :: "line_item list"
  ord_name :: string
  address :: string
  paymentType :: string
  amount :: rat
  paymentStatus :: string
  createdAt :: nat

record db =
  users :: "account list"
  admins :: "account list"
  images :: "image list"
  orders :: "order_doc list"

subsection \<open>Queries\<close>

text \<open>\<^verbatim>\<open>Model.findById(id)\<close>\<close>

definition findById :: "lib \<Rightarrow> ('a \<Rightarrow> oid) \<Rightarrow> 'a list \<Rightarrow> jv \<Rightarrow> exn + 'a option" where
  "findById L key coll v =
     (case castObjectId L v of
        None \<Rightarrow> Inl CastError
      | Some i \<Rightarrow> Inr (find (\<lambda>d. key d = i) coll))"

text \<open>\<^verbatim>\<open>Image.find({ _id: { $in: ids } })\<close>: every element is cast; each document comes once.\<close>

fun cast_ids :: "lib \<Rightarrow> jv list \<Rightarrow> oid list option" where
  "cast_ids L [] = Some []"
| "cast_ids L (v # vs) =
     (case castObjectId L v of
        None \<Rightarrow> None
      | Some i \<Rightarrow> (case cast_ids L vs of None \<Rightarrow> None | Some is \<Rightarrow> Some (i # is)))"

definition find_in :: "lib \<Rightarrow> image list \<Rightarrow> jv list \<Rightarrow> exn + image list" where
  "find_in L coll ids =
     (case cast_ids L ids of
        None \<Rightarrow> Inl CastError
      | Some is \<Rightarrow> Inr (filter (\<lambda>d. img_id d \<in> set is) coll))"

text \<open>
  \<^verbatim>\<open>Model.findOne({ email })\<close>: a string selects the records of exactly that email; any
  other value selects what the library makes of it.
\<close>

definition findOne_email :: "lib \<Rightarrow> account list \<Rightarrow> jv \<Rightarrow> exn + account option" where
  "findOne_email L coll v =
     (case v of
        JStr e \<Rightarrow> Inr (find (\<lambda>d. email d = e) coll)
      | _ \<Rightarrow>
          (case queryOther L v of
             None \<Rightarrow> Inl CastError
           | Some matches \<Rightarrow> Inr (find (\<lambda>d. matches (email d)) coll)))"

subsection \<open>Documents as JSON\<close>

text \<open>
  The version key \<^verbatim>\<open>__v\<close> and the \<^verbatim>\<open>_id\<close> of a sub-document are bookkeeping of mongoose
  and are left out.
\<close>

definition image_json :: "image \<Rightarrow> jv" where
  "image_json d = JObj [(''_id'', JStr (img_id d)), (''url'', JStr (url d)),
     (''name'', JStr (img_name d)), (''price'', JNum (price d)),
     (''description'', JStr (description d))]"

text \<open>The projection \<^verbatim>\<open>'-password'\<close>.\<close>

definition account_json :: "account \<Rightarrow> jv" where
  "account_json d = JObj [(''_id'', JStr (acc_id d)), (''firstName'', JStr (firstName d)),
     (''secondName'', JStr (secondName d)), (''email'', JStr (email d)),
     (''profilePicture'', JStr (profilePicture d))]"

definition item_json :: "line_item \<Rightarrow> jv" where
  "item_json it = JObj [(''productId'', JStr (productId it)), (''quantity'', JNum (quantity it))]"

definition order_json :: "lib \<Rightarrow> order_doc \<Rightarrow> jv" where
  "order_json L d = JObj [(''_id'', JStr (ord_id d)), (''userId'', JStr (userId d)),
     (''products'', JArr (map item_json (products d))),
     (''name'', JStr (ord_name d)), (''address'', JStr (address d)),
     (''paymentType'', JStr (paymentType d)), (''amount'', JNum (amount d)),
     (''paymentStatus'', JStr (paymentStatus d)),
     (''createdAt'', JStr (toISOString L (createdAt d)))]"

section \<open>POST /create-order\<close>

text \<open>
  The outcome of a block of a handler: it throws, it returns a response, or control goes on
  with a value.
\<close>

datatype 'a flow = Raise exn | Reply response | Proceed 'a

fun check_items :: "lib \<Rightarrow> jv list \<Rightarrow> unit flow" where
  "check_items L [] = Proceed ()"
| "check_items L (item # rest) =
     (case get_prop item ''productId'' of
        Inl e \<Rightarrow> Raise e
      | Inr pid \<Rightarrow>
          if \<not> isValid L pid
          then Reply (json 400 (error_body (''Invalid product ID: '' @ template L pid)))
          else (case get_prop item ''quantity'' of
                  Inl e \<Rightarrow> Raise e
                | Inr q \<Rightarrow>
                    if \<not> Number_isInteger q \<or>
                       (case q of JNum n \<Rightarrow> n < 1 | _ \<Rightarrow> False)
                    then Reply (json 400
                           (error_body (''Invalid quantity for product '' @ template L pid)))
                    else check_items L rest))"

text \<open>\<^verbatim>\<open>products.map(p => p.productId)\<close>: only an array has \<^verbatim>\<open>map\<close>.\<close>

fun props :: "jv list \<Rightarrow> string \<Rightarrow> exn + jv list" where
  "props [] k = Inr []"
| "props (x # xs) k =
     (case get_prop x k of
        Inl e \<Rightarrow> Inl e
      | Inr v \<Rightarrow> (case props xs k of Inl e \<Rightarrow> Inl e | Inr vs \<Rightarrow> Inr (v # vs)))"

fun map_productId :: "jv \<Rightarrow> exn + jv list" where
  "map_productId (JArr xs) = props xs ''productId''"
| "map_productId _ = Inl TypeError"

text \<open>
  \<^verbatim>\<open>Order.create({ userId, products, name, address, paymentType, amount })\<close> under
  \<^verbatim>\<open>orderSchema\<close>: every path is cast and validated; \<^verbatim>\<open>paymentStatus\<close> and \<^verbatim>\<open>createdAt\<close>
  are not among the properties passed, so they take the defaults of the schema.
\<close>

definition cast_item :: "lib \<Rightarrow> jv \<Rightarrow> line_item option" where
  "cast_item L item =
     (case item of
        JObj kvs \<Rightarrow>
          (case castObjectId L (lookup kvs ''productId'') of
             None \<Rightarrow> None
           | Some p \<Rightarrow>
               (case cast_number L (lookup kvs ''quantity'') of
                  None \<Rightarrow> None
                | Some q \<Rightarrow> if q < 1 then None else Some \<lparr>productId = p, quantity = q\<rparr>))
      | _ \<Rightarrow> None)"

fun cast_items :: "lib \<Rightarrow> jv list \<Rightarrow> line_item list option" where
  "cast_items L [] = Some []"
| "cast_items L (v # vs) =
     (case cast_item L v of
        None \<Rightarrow> None
      | Some it \<Rightarrow> (case cast_items L vs of None \<Rightarrow> None | Some its \<Rightarrow> Some (it # its)))"

definition Order_create ::
  "lib \<Rightarrow> nat \<Rightarrow> oid \<Rightarrow> jv \<Rightarrow> jv \<Rightarrow> jv \<Rightarrow> jv \<Rightarrow> jv \<Rightarrow> jv \<Rightarrow> exn + order_doc" where
  "Order_create L now fresh vUserId vProducts vName vAddress vPaymentType vAmount =
     (case castObjectId L vUserId of
        None \<Rightarrow> Inl ValidationError
      | Some uid \<Rightarrow>
     (case (case vProducts of JArr xs \<Rightarrow> cast_items L xs | _ \<Rightarrow> None) of
        None \<Rightarrow> Inl ValidationError
      | Some its \<Rightarrow>
     (case required_string L vName of
        None \<Rightarrow> Inl ValidationError
      | Some n \<Rightarrow>
     (case required_string L vAddress of
        None \<Rightarrow> Inl ValidationError
      | Some a \<Rightarrow>
     (case required_string L vPaymentType of
        None \<Rightarrow> Inl ValidationError
      | Some pt \<Rightarrow>
     (case cast_number L vAmount of
        None \<Rightarrow> Inl ValidationError
      | Some am \<Rightarrow>
          Inr \<lparr>ord_id = fresh, userId = uid, products = its, ord_name = n, address = a,
               paymentType = pt, amount = am, paymentStatus = ''pending'',
               createdAt = now\<rparr>))))))"

text \<open>
  The handler.  \<open>now\<close> is \<^verbatim>\<open>Date.now()\<close> and \<open>fresh\<close> the identifier the driver generates
  for the new document.
\<close>

definition create_order :: "lib \<Rightarrow> nat \<Rightarrow> oid \<Rightarrow> db \<Rightarrow> jv \<Rightarrow> response \<times> db" where
  "create_order L now fresh d reqBody =
     (let vUserId = field reqBody ''userId'';
          vProducts = field reqBody ''products'';
          vName = field reqBody ''name'';
          vAddress = field reqBody ''address'';
          vPaymentType = field reqBody ''paymentType'';
          vAmount = field reqBody ''amount''
      in
      if \<not> truthy vUserId \<or> \<not> truthy vProducts \<or> \<not> truthy vName \<or> \<not> truthy vAddress
         \<or> \<not> truthy vPaymentType \<or> \<not> truthy vAmount
      then (json 400 (error_body ''All fields are required''), d)
      else if \<not> isValid L vUserId
      then (json 400 (error_body ''Invalid user ID''), d)
      else
        (case for_of vProducts of
           Inl e \<Rightarrow> (caught L ''Order creation failed'' e, d)
         | Inr items \<Rightarrow>
        (case check_items L items of
           Raise e \<Rightarrow> (caught L ''Order creation failed'' e, d)
         | Reply r \<Rightarrow> (r, d)
         | Proceed u \<Rightarrow>
        (case findById L acc_id (users d) vUserId of
           Inl e \<Rightarrow> (caught L ''Order creation failed'' e, d)
         | Inr None \<Rightarrow> (json 404 (error_body ''User not found''), d)
         | Inr (Some user) \<Rightarrow>
        (case map_productId vProducts of
           Inl e \<Rightarrow> (caught L ''Order creation failed'' e, d)
         | Inr productIds \<Rightarrow>
        (case find_in L (images d) productIds of
           Inl e \<Rightarrow> (caught L ''Order creation failed'' e, d)
         | Inr foundProducts \<Rightarrow>
             if length foundProducts \<noteq> length productIds
             then (json 404 (error_body ''One or more products not found''), d)
             else
               (case Order_create L now fresh vUserId vProducts vName vAddress
                       vPaymentType vAmount of
                  Inl e \<Rightarrow> (caught L ''Order creation failed'' e, d)
                | Inr order \<Rightarrow>
                    (json 201 (JObj [(''order'', order_json L order)]),
                     d\<lparr>orders := orders d @ [order]\<rparr>))))))))"

section \<open>Strings of the image payloads\<close>

text \<open>\<^verbatim>\<open>s.startsWith(p)\<close>\<close>

definition startsWith :: "string \<Rightarrow> string \<Rightarrow> bool" where
  "startsWith s p = (take (length p) s = p)"

text \<open>The class \<^verbatim>\<open>\w\<close> of a regular expression.\<close>

definition word_char :: "char \<Rightarrow> bool" where
  "word_char c =
     (c \<in> set ''abcdefghijklmnopqrstuvwxyzABCDEFGHIJKLMNOPQRSTUVWXYZ0123456789_'')"

text \<open>
  \<^verbatim>\<open>s.replace(/^data:image\/\w+;base64,/, '')\<close>: the run of word characters is greedy and
  the character after it must be the semicolon, so the longest run is the only candidate.
\<close>

definition strip_data_uri :: "string \<Rightarrow> string" where
  "strip_data_uri s =
     (if startsWith s ''data:image/''
      then (let r = drop 11 s; w = takeWhile word_char r; t = dropWhile word_char r
            in if w \<noteq> [] \<and> startsWith t '';base64,'' then drop 8 t else s)
      else s)"

text \<open>\<^verbatim>\<open>s.split(';')[0].split('/')[1]\<close>; \<open>None\<close> is \<open>undefined\<close>.\<close>

definition image_type :: "string \<Rightarrow> string option" where
  "image_type s =
     (let h = takeWhile (\<lambda>c. c \<noteq> CHR '';'') s
      in case dropWhile (\<lambda>c. c \<noteq> CHR ''/'') h of
           [] \<Rightarrow> None
         | c # r \<Rightarrow> Some (takeWhile (\<lambda>c. c \<noteq> CHR ''/'') r))"

text \<open>\<^verbatim>\<open>buffer.length / 1024 / 1024\<close>; both divisions are exact in binary floating point.\<close>

definition fileSize :: "string \<Rightarrow> rat" where
  "fileSize bytes = of_nat (length bytes) / 1024 / 1024"

section \<open>POST /upload\<close>

text \<open>\<^verbatim>\<open>new Image({ url, name, price, description }).save()\<close> under \<^verbatim>\<open>imageSchema\<close>.\<close>

definition Image_save :: "lib \<Rightarrow> oid \<Rightarrow> string \<Rightarrow> jv \<Rightarrow> rat \<Rightarrow> jv \<Rightarrow> exn + image" where
  "Image_save L fresh location vName parsedPrice vDescription =
     (if location = [] then Inl ValidationError
      else
     (case required_string L vName of
        None \<Rightarrow> Inl ValidationError
      | Some n \<Rightarrow>
          if parsedPrice < 0 then Inl ValidationError
          else
     (case cast_string L vDescription of
        None \<Rightarrow> Inl ValidationError
      | Some ds \<Rightarrow>
          Inr \<lparr>img_id = fresh, url = location, img_name = n, price = parsedPrice,
               description = ds\<rparr>)))"

text \<open>
  A value that is truthy and not a string has no \<^verbatim>\<open>replace\<close>: the call throws.  The key of
  the object is made of the time stamp and the type, \<open>undefined\<close> printed as such.
\<close>

definition upload :: "lib \<Rightarrow> nat \<Rightarrow> oid \<Rightarrow> db \<Rightarrow> jv \<Rightarrow> response \<times> db" where
  "upload L now fresh d reqBody =
     (let vImage = field reqBody ''image'';
          vName = field reqBody ''name'';
          vPrice = field reqBody ''price'';
          vDescription = field reqBody ''description''
      in
      if \<not> truthy vImage \<or> \<not> truthy vName \<or> vPrice = JUndefined
      then (json 400 (error_body ''Image, name, and price are required''), d)
      else
        (case parseFloat L vPrice of
           None \<Rightarrow> (json 400 (error_body ''Price must be a positive number''), d)
         | Some parsedPrice \<Rightarrow>
             if parsedPrice < 0
             then (json 400 (error_body ''Price must be a positive number''), d)
             else
        (case vImage of
           JStr img \<Rightarrow>
             (let base64Data = base64decode L (strip_data_uri img);
                  type = (case image_type img of None \<Rightarrow> ''undefined'' | Some t \<Rightarrow> t)
              in
              if fileSize base64Data > 5
              then (json 413 (error_body ''Image size exceeds 5MB limit''), d)
              else
                (case s3_upload L now type base64Data of
                   None \<Rightarrow> (caught L ''Upload failed'' S3Error, d)
                 | Some location \<Rightarrow>
                (case Image_save L fresh location vName parsedPrice
                        (if truthy vDescription then vDescription else JStr []) of
                   Inl e \<Rightarrow> (caught L ''Upload failed'' e, d)
                 | Inr newImage \<Rightarrow>
                     (json 200 (JObj [(''url'', JStr location)]),
                      d\<lparr>images := images d @ [newImage]\<rparr>))))
         | _ \<Rightarrow> (caught L ''Upload failed'' TypeError, d))))"

section \<open>GET /images and POST /cart-items\<close>

definition get_images :: "db \<Rightarrow> response" where
  "get_images d = json 200 (JArr (map image_json (images d)))"

definition cart_items :: "lib \<Rightarrow> db \<Rightarrow> jv \<Rightarrow> response" where
  "cart_items L d reqBody =
     (case field reqBody ''ids'' of
        JArr ids \<Rightarrow>
          (case find_in L (images d) ids of
             Inl e \<Rightarrow> caught L ''Fetch failed'' e
           | Inr found \<Rightarrow> json 200 (JArr (map image_json found)))
      | _ \<Rightarrow> json 400 (error_body ''IDs must be an array''))"

section \<open>DELETE /delete-image/:id\<close>

text \<open>\<^verbatim>\<open>Image.findByIdAndDelete(id)\<close> removes the first document of that identifier.\<close>

fun delete_first :: "oid \<Rightarrow> image list \<Rightarrow> image list" where
  "delete_first i [] = []"
| "delete_first i (x # xs) = (if img_id x = i then xs else x # delete_first i xs)"

text \<open>
  The path parameter is a string.  A failure of \<^verbatim>\<open>s3.deleteObject\<close> is logged and dropped, so
  the blob store has no part in the response.
\<close>

definition delete_image :: "lib \<Rightarrow> db \<Rightarrow> string \<Rightarrow> response \<times> db" where
  "delete_image L d ident =
     (if \<not> isValid L (JStr ident)
      then (json 400 (error_body ''Invalid image ID''), d)
      else
        (case findById L img_id (images d) (JStr ident) of
           Inl e \<Rightarrow> (caught L ''Delete failed'' e, d)
         | Inr None \<Rightarrow> (json 404 (error_body ''Image not found''), d)
         | Inr (Some found) \<Rightarrow>
             (json 200 (JObj [(''message'', JStr ''Product deleted successfully'')]),
              d\<lparr>images := delete_first (img_id found) (images d)\<rparr>)))"

section \<open>POST /create-admins and POST /create-users\<close>

text \<open>
  The block \<^verbatim>\<open>if (profilePicture) { ... }\<close>.  A truthy value that is not a string has no
  \<^verbatim>\<open>startsWith\<close>: the call throws.  The block goes on with \<^verbatim>\<open>profilePicData\<close>.
\<close>

definition check_picture :: "lib \<Rightarrow> jv \<Rightarrow> string flow" where
  "check_picture L vProfilePicture =
     (if \<not> truthy vProfilePicture then Proceed []
      else
        (case vProfilePicture of
           JStr pic \<Rightarrow>
             if \<not> startsWith pic ''data:image/''
             then Reply (json 400 (error_body ''Invalid base64 image format''))
             else
               (let base64Data = strip_data_uri pic;
                    type = image_type pic
                in
                if type \<notin> set [Some ''jpeg'', Some ''jpg'', Some ''png'']
                then Reply (json 400 (error_body ''Invalid image format. Use JPEG or PNG''))
                else if fileSize (base64decode L base64Data) > 1
                then Reply (json 413 (error_body ''Profile picture size exceeds 1MB limit''))
                else Proceed pic)
         | _ \<Rightarrow> Raise TypeError))"

text \<open>
  \<^verbatim>\<open>Model.create({ firstName, secondName, email, password, profilePicture })\<close> under
  \<^verbatim>\<open>userSchema\<close> or \<^verbatim>\<open>adminSchema\<close>; the index of \<^verbatim>\<open>unique: true\<close> refuses a second
  document of the same email.
\<close>

definition Account_create ::
  "lib \<Rightarrow> oid \<Rightarrow> account list \<Rightarrow> jv \<Rightarrow> jv \<Rightarrow> jv \<Rightarrow> string \<Rightarrow> string \<Rightarrow> exn + account" where
  "Account_create L fresh coll vFirstName vSecondName vEmail hashedPassword profilePicData =
     (case required_string L vFirstName of
        None \<Rightarrow> Inl ValidationError
      | Some f \<Rightarrow>
     (case required_string L vSecondName of
        None \<Rightarrow> Inl ValidationError
      | Some s \<Rightarrow>
     (case required_string L vEmail of
        None \<Rightarrow> Inl ValidationError
      | Some e \<Rightarrow>
          if hashedPassword = [] then Inl ValidationError
          else if e \<in> set (map email coll) then Inl DuplicateKey
          else Inr \<lparr>acc_id = fresh, firstName = f, secondName = s, email = e,
                    password = hashedPassword, profilePicture = profilePicData\<rparr>)))"

text \<open>
  The two handlers are the same text but for the model they write to, the key of the summary
  and the message.  \<open>register\<close> is that text; \<open>okMessage\<close> and \<open>key\<close> are what differs.
  The summary of the response holds \<^verbatim>\<open>firstName\<close> and \<^verbatim>\<open>email\<close> of the request, as sent.
\<close>

definition register ::
  "lib \<Rightarrow> oid \<Rightarrow> string \<Rightarrow> string \<Rightarrow> account list \<Rightarrow> jv \<Rightarrow> response \<times> account list" where
  "register L fresh okMessage key coll reqBody =
     (let vFirstName = field reqBody ''firstName'';
          vSecondName = field reqBody ''secondName'';
          vEmail = field reqBody ''email'';
          vPassword = field reqBody ''password'';
          vProfilePicture = field reqBody ''profilePicture''
      in
      if \<not> truthy vFirstName \<or> \<not> truthy vSecondName \<or> \<not> truthy vEmail \<or> \<not> truthy vPassword
      then (json 400 (error_body ''All fields are required''), coll)
      else
        (case findOne_email L coll vEmail of
           Inl e \<Rightarrow> (caught L ''Registration failed'' e, coll)
         | Inr (Some existing) \<Rightarrow> (json 400 (error_body ''Email already registered''), coll)
         | Inr None \<Rightarrow>
        (case check_picture L vProfilePicture of
           Raise e \<Rightarrow> (caught L ''Registration failed'' e, coll)
         | Reply r \<Rightarrow> (r, coll)
         | Proceed profilePicData \<Rightarrow>
        (case bcrypt_hash L vPassword of
           None \<Rightarrow> (caught L ''Registration failed'' BcryptError, coll)
         | Some hashedPassword \<Rightarrow>
        (case Account_create L fresh coll vFirstName vSecondName vEmail hashedPassword
                profilePicData of
           Inl e \<Rightarrow> (caught L ''Registration failed'' e, coll)
         | Inr created \<Rightarrow>
             (json 201 (JObj [(''message'', JStr okMessage),
                (key, JObj [(''firstName'', vFirstName), (''email'', vEmail),
                            (''profilePicture'', JStr profilePicData)])]),
              coll @ [created]))))))"

definition create_admins :: "lib \<Rightarrow> oid \<Rightarrow> db \<Rightarrow> jv \<Rightarrow> response \<times> db" where
  "create_admins L fresh d reqBody =
     (case register L fresh ''Admin registered successfully'' ''admin'' (admins d) reqBody of
        (r, coll) \<Rightarrow> (r, d\<lparr>admins := coll\<rparr>))"

definition create_users :: "lib \<Rightarrow> oid \<Rightarrow> db \<Rightarrow> jv \<Rightarrow> response \<times> db" where
  "create_users L fresh d reqBody =
     (case register L fresh ''User registered successfully'' ''user'' (users d) reqBody of
        (r, coll) \<Rightarrow> (r, d\<lparr>users := coll\<rparr>))"

section \<open>POST /admin-login and POST /user-login\<close>

definition admin_login :: "lib \<Rightarrow> db \<Rightarrow> jv \<Rightarrow> response" where
  "admin_login L d reqBody =
     (let vEmail = field reqBody ''email'';
          vPassword = field reqBody ''password''
      in
      if \<not> truthy vEmail \<or> \<not> truthy vPassword
      then json 400 (error_body ''Email and password are required'')
      else
        (case findOne_email L (admins d) vEmail of
           Inl e \<Rightarrow> caught L ''Login failed'' e
         | Inr None \<Rightarrow> json 401 (error_body ''Invalid email or password'')
         | Inr (Some admin) \<Rightarrow>
        (case bcrypt_compare L vPassword (password admin) of
           None \<Rightarrow> caught L ''Login failed'' BcryptError
         | Some isMatch \<Rightarrow>
             if \<not> isMatch then json 401 (error_body ''Invalid email or password'')
             else json 200 (JObj [(''message'', JStr ''Login successful''),
                    (''admin'', JObj [(''firstName'', JStr (firstName admin)),
                                      (''email'', JStr (email admin)),
                                      (''profilePicture'', JStr (profilePicture admin))])]))))"

definition user_login :: "lib \<Rightarrow> db \<Rightarrow> jv \<Rightarrow> response" where
  "user_login L d reqBody =
     (let vEmail = field reqBody ''email'';
          vPassword = field reqBody ''password''
      in
      if \<not> truthy vEmail \<or> \<not> truthy vPassword
      then json 400 (error_body ''Email and password are required'')
      else
        (case findOne_email L (users d) vEmail of
           Inl e \<Rightarrow> caught L ''Login failed'' e
         | Inr None \<Rightarrow> json 401 (error_body ''Invalid email or password'')
         | Inr (Some user) \<Rightarrow>
        (case bcrypt_compare L vPassword (password user) of
           None \<Rightarrow> caught L ''Login failed'' BcryptError
         | Some isMatch \<Rightarrow>
             if \<not> isMatch then json 401 (error_body ''Invalid email or password'')
             else json 200 (JObj [(''message'', JStr ''Login successful''),
                    (''user'', JObj [(''_id'', JStr (acc_id user)),
                                     (''firstName'', JStr (firstName user)),
                                     (''secondName'', JStr (secondName user)),
                                     (''email'', JStr (email user)),
                                     (''profilePicture'', JStr (profilePicture user))])]))))"

section \<open>GET /admin/profile, GET /admin/admins and GET /admin/users\<close>

text \<open>\<open>reqQuery\<close> is \<^verbatim>\<open>req.query\<close>, an object of the parameters of the URL.\<close>

definition admin_profile :: "lib \<Rightarrow> db \<Rightarrow> jv \<Rightarrow> response" where
  "admin_profile L d reqQuery =
     (let vEmail = field reqQuery ''email''
      in
      if \<not> truthy vEmail then json 400 (error_body ''Email is required'')
      else
        (case findOne_email L (admins d) vEmail of
           Inl e \<Rightarrow> caught L ''Failed to fetch profile'' e
         | Inr None \<Rightarrow> json 404 (error_body ''Admin not found'')
         | Inr (Some admin) \<Rightarrow> json 200 (JObj [(''admin'', account_json admin)])))"

definition admin_admins :: "db \<Rightarrow> response" where
  "admin_admins d = json 200 (JArr (map account_json (admins d)))"

definition admin_users :: "db \<Rightarrow> response" where
  "admin_users d = json 200 (JArr (map account_json (users d)))"

section \<open>GET /orders and GET /order/:id\<close>

text \<open>
  \<^verbatim>\<open>populate(path, select)\<close> puts the selected paths of the referenced document, or
  \<open>null\<close> when there is none, in the place of the identifier.
\<close>

definition user_ref :: "db \<Rightarrow> oid \<Rightarrow> jv" where
  "user_ref d i =
     (case find (\<lambda>u. acc_id u = i) (users d) of
        None \<Rightarrow> JNull
      | Some u \<Rightarrow> JObj [(''_id'', JStr (acc_id u)), (''firstName'', JStr (firstName u)),
                         (''secondName'', JStr (secondName u)), (''email'', JStr (email u))])"

definition product_ref :: "db \<Rightarrow> oid \<Rightarrow> jv" where
  "product_ref d i =
     (case find (\<lambda>p. img_id p = i) (images d) of
        None \<Rightarrow> JNull
      | Some p \<Rightarrow> JObj [(''_id'', JStr (img_id p)), (''name'', JStr (img_name p)),
                         (''price'', JNum (price p))])"

definition product_doc :: "db \<Rightarrow> oid \<Rightarrow> jv" where
  "product_doc d i =
     (case find (\<lambda>p. img_id p = i) (images d) of
        None \<Rightarrow> JNull
      | Some p \<Rightarrow> image_json p)"

definition populated :: "lib \<Rightarrow> (oid \<Rightarrow> jv) \<Rightarrow> (oid \<Rightarrow> jv) \<Rightarrow> order_doc \<Rightarrow> jv" where
  "populated L user product ord =
     JObj [(''_id'', JStr (ord_id ord)), (''userId'', user (userId ord)),
       (''products'', JArr (map (\<lambda>it. JObj [(''productId'', product (productId it)),
                                              (''quantity'', JNum (quantity it))])
                              (products ord))),
       (''name'', JStr (ord_name ord)), (''address'', JStr (address ord)),
       (''paymentType'', JStr (paymentType ord)), (''amount'', JNum (amount ord)),
       (''paymentStatus'', JStr (paymentStatus ord)),
       (''createdAt'', JStr (toISOString L (createdAt ord)))]"

definition get_orders :: "lib \<Rightarrow> db \<Rightarrow> response" where
  "get_orders L d = json 200 (JArr (map (populated L (user_ref d) (product_ref d)) (orders d)))"

definition get_order :: "lib \<Rightarrow> db \<Rightarrow> string \<Rightarrow> response" where
  "get_order L d ident =
     (if \<not> isValid L (JStr ident) then json 400 (error_body ''Invalid order ID'')
      else
        (case findById L ord_id (orders d) (JStr ident) of
           Inl e \<Rightarrow> caught L ''Fetch failed'' e
         | Inr None \<Rightarrow> json 404 (error_body ''Order not found'')
         | Inr (Some order) \<Rightarrow>
             json 200 (JObj [(''order'', populated L JStr (product_doc d) order)])))"

section \<open>Keys of a payload\<close>

text \<open>A key occurs in a value when an object at any depth of the value has it.\<close>

fun has_key :: "string \<Rightarrow> jv \<Rightarrow> bool" where
  "has_key k (JArr xs) = list_ex (has_key k) xs"
| "has_key k (JObj kvs) = list_ex (\<lambda>kv. fst kv = k \<or> has_key k (snd kv)) kvs"
| "has_key k v = False"

section \<open>What a response can depend on\<close>

text \<open>
  To say that a response does not carry a stored password, the handlers are run a second
  time where the passwords are out of reach: on the database with every stored password
  wiped, with the hash of a new password replaced by a mask that keeps only whether it is
  empty, and with the comparison of a login replaced by its outcome.
\<close>

definition forget :: "account \<Rightarrow> account" where
  "forget a = a\<lparr>password := []\<rparr>"

definition without_passwords :: "db \<Rightarrow> db" where
  "without_passwords d =
     d\<lparr>users := map forget (users d), admins := map forget (admins d)\<rparr>"

definition mask :: "string \<Rightarrow> string" where
  "mask h = (if h = [] then [] else ''*'')"

definition hash_blind :: "lib \<Rightarrow> lib" where
  "hash_blind L = L\<lparr>bcrypt_hash := (\<lambda>v. map_option mask (bcrypt_hash L v))\<rparr>"

text \<open>
  The outcome of \<^verbatim>\<open>bcrypt.compare\<close> in a login: that of the password of the request against
  the hash of the record found, \<open>None\<close> when no comparison resolves.
\<close>

definition compare_outcome :: "lib \<Rightarrow> account list \<Rightarrow> jv \<Rightarrow> bool option" where
  "compare_outcome L coll reqBody =
     (case findOne_email L coll (field reqBody ''email'') of
        Inr (Some a) \<Rightarrow> bcrypt_compare L (field reqBody ''password'') (password a)
      | _ \<Rightarrow> None)"

definition compare_fixed :: "lib \<Rightarrow> bool option \<Rightarrow> lib" where
  "compare_fixed L outcome = L\<lparr>bcrypt_compare := (\<lambda>p h. outcome)\<rparr>"

section \<open>A small shop to run the handlers on\<close>

text \<open>
  A stand-in for the libraries: identifiers are the strings of 24 characters, only strings
  and numbers are cast, the one operator of a query is \<^verbatim>\<open>{"$ne": null}\<close>, bcrypt takes
  strings only, a string of base64 decodes to three bytes for every four characters
  less the padding, and the hash of a password is the password behind a fixed prefix.
\<close>

definition testLib :: lib where
  "testLib = \<lparr>
     isValid = (\<lambda>v. case v of JStr s \<Rightarrow> length s = 24 | _ \<Rightarrow> False),
     castObjectId =
       (\<lambda>v. case v of JStr s \<Rightarrow> if length s = 24 then Some s else None | _ \<Rightarrow> None),
     castStringOther = (\<lambda>v. None),
     castNumberOther = (\<lambda>v. None),
     queryOther =
       (\<lambda>v. case v of JObj [(''$ne'', JNull)] \<Rightarrow> Some (\<lambda>s. True) | _ \<Rightarrow> None),
     parseFloat = (\<lambda>v. case v of JNum q \<Rightarrow> Some q | _ \<Rightarrow> None),
     base64decode =
       (\<lambda>s. replicate (3 * (length s div 4) - length (filter (\<lambda>c. c = CHR ''='') s))
              (CHR ''x'')),
     bcrypt_hash = (\<lambda>v. case v of JStr s \<Rightarrow> Some (''$2b$10$'' @ s) | _ \<Rightarrow> None),
     bcrypt_compare =
       (\<lambda>v h. case v of JStr s \<Rightarrow> Some (h = ''$2b$10$'' @ s) | _ \<Rightarrow> None),
     s3_upload = (\<lambda>t ty bytes. Some (''https://bucket.example/'' @ ty)),
     toStringOther = (\<lambda>v. ''[object Object]''),
     toISOString = (\<lambda>t. ''2024-01-01T00:00:00.000Z''),
     message = (\<lambda>e. ''failed'')\<rparr>"

definition alice :: account where
  "alice = \<lparr>acc_id = ''64b0000000000000000000a1'', firstName = ''Alice'',
     secondName = ''Ames'', email = ''alice@example.com'', password = ''$2b$10$wonderland'',
     profilePicture = []\<rparr>"

definition lamp :: image where
  "lamp = \<lparr>img_id = ''64b0000000000000000000f1'', url = ''https://bucket.example/1.png'',
     img_name = ''Lamp'', price = 20, description = []\<rparr>"

definition shop :: db where
  "shop = \<lparr>users = [alice], admins = [alice], images = [lamp], orders = []\<rparr>"

definition line :: "string \<Rightarrow> rat \<Rightarrow> jv" where
  "line p q = JObj [(''productId'', JStr p), (''quantity'', JNum q)]"

text \<open>An order of Alice's; the caller also sends a \<^verbatim>\<open>paymentStatus\<close>.\<close>

definition order_req :: "string \<Rightarrow> jv \<Rightarrow> jv \<Rightarrow> jv" where
  "order_req uid ps am = JObj [(''userId'', JStr uid), (''products'', ps),
     (''name'', JStr ''Alice''), (''address'', JStr ''1 Main St''),
     (''paymentType'', JStr ''card''), (''amount'', am), (''paymentStatus'', JStr ''paid'')]"

definition account_req :: "string \<Rightarrow> string \<Rightarrow> jv \<Rightarrow> jv" where
  "account_req e pw pic = JObj [(''firstName'', JStr ''Bob''), (''secondName'', JStr ''Burns''),
     (''email'', JStr e), (''password'', JStr pw), (''profilePicture'', pic)]"

definition login_req :: "string \<Rightarrow> string \<Rightarrow> jv" where
  "login_req e pw = JObj [(''email'', JStr e), (''password'', JStr pw)]"

text \<open>A login whose password is a number.\<close>

definition login_num :: "string \<Rightarrow> rat \<Rightarrow> jv" where
  "login_num e n = JObj [(''email'', JStr e), (''password'', JNum n)]"

text \<open>The order the handler stores for Alice at time 7, given its line items and amount.\<close>

definition placed :: "line_item list \<Rightarrow> rat \<Rightarrow> order_doc" where
  "placed its am = \<lparr>ord_id = ''64b0000000000000000000c1'',
     userId = ''64b0000000000000000000a1'', products = its, ord_name = ''Alice'',
     address = ''1 Main St'', paymentType = ''card'', amount = am,
     paymentStatus = ''pending'', createdAt = 7\<rparr>"

text \<open>A data URI of a PNG: \<open>n\<close> letters A of base64 and a tail.\<close>

definition data_uri :: "nat \<Rightarrow> string \<Rightarrow> string" where
  "data_uri n tail = ''data:image/png;base64,'' @ replicate n (CHR ''A'') @ tail"

definition upload_req :: "string \<Rightarrow> jv" where
  "upload_req img = JObj [(''image'', JStr img), (''name'', JStr ''Vase''), (''price'', JNum 0)]"

section \<open>Order creation: the flow of the handler\<close>

lemma status_json: "status (json c b) = c"
  by (simp add: json_def)

lemma body_json: "body (json c b) = b"
  by (simp add: json_def)

lemma status_caught: "status (caught L m e) = 500"
  by (simp add: caught_def json_def)

lemma body_caught:
  "body (caught L m e) = JObj [(''error'', JStr m), (''details'', JStr (message L e))]"
  by (simp add: caught_def json_def)

lemma check_items_Reply: "check_items L xs = Reply r \<Longrightarrow> status r = 400"
  by (induction xs) (auto simp: status_json split: sum.splits if_splits)

lemma check_items_Proceed:
  "check_items L items = Proceed () \<Longrightarrow> item \<in> set items \<Longrightarrow>
     \<exists>pid q. get_prop item ''productId'' = Inr pid \<and> isValid L pid \<and>
       get_prop item ''quantity'' = Inr (JNum q) \<and> of_int \<lfloor>q\<rfloor> = q \<and> 1 \<le> q"
proof (induction items)
  case Nil
  then show ?case by simp
next
  case (Cons x xs)
  from Cons.prems(1) obtain pid qv
    where x: "get_prop x ''productId'' = Inr pid" "isValid L pid"
      "get_prop x ''quantity'' = Inr qv" "Number_isInteger qv"
      "\<not> (case qv of JNum n \<Rightarrow> n < 1 | _ \<Rightarrow> False)"
      and rest: "check_items L xs = Proceed ()"
    by (auto split: sum.splits if_splits)
  from x(4) obtain q where q: "qv = JNum q" "of_int \<lfloor>q\<rfloor> = q"
    by (cases qv) auto
  show ?case
  proof (cases "item = x")
    case True
    with x q show ?thesis by auto
  next
    case False
    with Cons rest show ?thesis by auto
  qed
qed

text \<open>
  Every run of the handler ends in one of two ways: a response other than 201 with the
  database as it was, or the response 201 after every check passed, with one order added.
\<close>

lemma create_order_cases:
  assumes fail: "\<And>r. status r \<noteq> 201 \<Longrightarrow> P (r, d)"
    and ok: "\<And>ord.
       \<lbrakk>truthy (field b ''userId''); truthy (field b ''products''); truthy (field b ''name'');
        truthy (field b ''address''); truthy (field b ''paymentType'');
        truthy (field b ''amount''); isValid L (field b ''userId'');
        \<exists>items. for_of (field b ''products'') = Inr items \<and> check_items L items = Proceed ();
        \<exists>u. findById L acc_id (users d) (field b ''userId'') = Inr (Some u);
        \<exists>ids found. map_productId (field b ''products'') = Inr ids \<and>
           find_in L (images d) ids = Inr found \<and> length found = length ids;
        Order_create L now fresh (field b ''userId'') (field b ''products'') (field b ''name'')
          (field b ''address'') (field b ''paymentType'') (field b ''amount'') = Inr ord\<rbrakk>
        \<Longrightarrow> P (json 201 (JObj [(''order'', order_json L ord)]),
               d\<lparr>orders := orders d @ [ord]\<rparr>)"
  shows "P (create_order L now fresh d b)"
  unfolding create_order_def Let_def
  by (simp add: fail ok status_json status_caught check_items_Reply
      split: sum.split option.split flow.split)

lemma Order_create_defaults:
  "Order_create L now fresh a b c d e f = Inr ord \<Longrightarrow>
     paymentStatus ord = ''pending'' \<and> createdAt ord = now"
  by (auto simp: Order_create_def split: option.splits)

lemma Order_create_no_items:
  "Order_create L now fresh a (JArr []) c d e f = Inr ord \<Longrightarrow> products ord = []"
  by (auto simp: Order_create_def split: option.splits)

lemma cast_ids_length: "cast_ids L ids = Some is \<Longrightarrow> length is = length ids"
  by (induction ids arbitrary: "is") (auto split: option.splits)

text \<open>A catalogue without repeated identifiers holds fewer matches than a list with a repeat.\<close>

lemma filter_ids_short:
  assumes "distinct (map img_id imgs)" and "\<not> distinct is"
  shows "length (filter (\<lambda>x. img_id x \<in> set is) imgs) < length is"
proof -
  let ?f = "filter (\<lambda>x. img_id x \<in> set is) imgs"
  have "distinct (map img_id ?f)"
    using assms(1) by (simp add: distinct_map_filter)
  then have "length ?f = card (set (map img_id ?f))"
    by (metis distinct_card length_map)
  also have "\<dots> \<le> card (set is)"
    by (rule card_mono) auto
  also have "\<dots> < length is"
    using assms(2) card_distinct card_length le_neq_implies_less by blast
  finally show ?thesis .
qed

text \<open>When as many documents are found as identifiers asked for, every identifier is found.\<close>

lemma found_all:
  assumes "distinct (map img_id imgs)"
    and "length (filter (\<lambda>x. img_id x \<in> set oids) imgs) = length oids"
  shows "set oids \<subseteq> set (map img_id imgs)"
proof -
  let ?f = "filter (\<lambda>x. img_id x \<in> set oids) imgs"
  have "distinct (map img_id ?f)"
    using assms(1) by (simp add: distinct_map_filter)
  then have "card (set (map img_id ?f)) = length oids"
    using assms(2) by (metis distinct_card length_map)
  then have "card (set oids) \<le> card (set (map img_id ?f))"
    by (simp add: card_length)
  moreover have "set (map img_id ?f) \<subseteq> set oids"
    by auto
  ultimately have "set (map img_id ?f) = set oids"
    by (intro card_seteq) simp_all
  then show ?thesis by auto
qed

lemma props_mem:
  "props items k = Inr ids \<Longrightarrow> item \<in> set items \<Longrightarrow>
     \<exists>v. get_prop item k = Inr v \<and> v \<in> set ids"
  by (induction items arbitrary: ids) (auto split: sum.splits)

lemma cast_ids_mem:
  "cast_ids L ids = Some oids \<Longrightarrow> v \<in> set ids \<Longrightarrow>
     \<exists>i. castObjectId L v = Some i \<and> i \<in> set oids"
  by (induction ids arbitrary: oids) (auto split: option.splits)

lemma products_resolve:
  assumes "distinct (map img_id imgs)"
    and "map_productId p = Inr ids" "find_in L imgs ids = Inr found"
    and "length found = length ids"
  shows "\<exists>items. p = JArr items \<and>
     (\<forall>item\<in>set items. \<exists>pid i. get_prop item ''productId'' = Inr pid \<and>
        castObjectId L pid = Some i \<and> i \<in> set (map img_id imgs))"
proof -
  from assms(2) obtain items where p: "p = JArr items" "props items ''productId'' = Inr ids"
    by (cases p) auto
  from assms(3) obtain oids where c: "cast_ids L ids = Some oids"
    "found = filter (\<lambda>x. img_id x \<in> set oids) imgs"
    by (auto simp: find_in_def split: option.splits)
  from c assms(4) have "length (filter (\<lambda>x. img_id x \<in> set oids) imgs) = length oids"
    by (simp add: cast_ids_length)
  with assms(1) have sub: "set oids \<subseteq> set (map img_id imgs)"
    by (rule found_all)
  have "\<exists>pid i. get_prop item ''productId'' = Inr pid \<and>
        castObjectId L pid = Some i \<and> i \<in> set (map img_id imgs)" if "item \<in> set items" for item
  proof -
    from props_mem[OF p(2) that] obtain pid where "get_prop item ''productId'' = Inr pid"
      "pid \<in> set ids" by blast
    moreover from cast_ids_mem[OF c(1) this(2)] obtain i where "castObjectId L pid = Some i"
      "i \<in> set oids" by blast
    ultimately show ?thesis using sub by blast
  qed
  with p(1) show ?thesis by blast
qed

lemma user_resolves:
  "findById L acc_id coll v = Inr (Some u) \<Longrightarrow>
     castObjectId L v = Some (acc_id u) \<and> u \<in> set coll"
  by (auto simp: findById_def find_Some_iff split: option.splits)

subsection \<open>Runs on the small shop\<close>

lemma run_order_one:
  "create_order testLib 7 ''64b0000000000000000000c1'' shop
     (order_req ''64b0000000000000000000a1'' (JArr [line ''64b0000000000000000000f1'' 1])
        (JNum 20))
   = (json 201 (JObj [(''order'', order_json testLib
         (placed [\<lparr>productId = ''64b0000000000000000000f1'', quantity = 1\<rparr>] 20))]),
      shop\<lparr>orders := [placed [\<lparr>productId = ''64b0000000000000000000f1'', quantity = 1\<rparr>] 20]\<rparr>)"
  by (simp add: create_order_def testLib_def shop_def alice_def lamp_def line_def order_req_def
      findById_def find_in_def Order_create_def cast_item_def required_string_def placed_def)

lemma run_order_empty:
  "create_order testLib 7 ''64b0000000000000000000c1'' shop
     (order_req ''64b0000000000000000000a1'' (JArr []) (JNum 20))
   = (json 201 (JObj [(''order'', order_json testLib (placed [] 20))]),
      shop\<lparr>orders := [placed [] 20]\<rparr>)"
  by (simp add: create_order_def testLib_def shop_def alice_def lamp_def order_req_def
      findById_def find_in_def Order_create_def required_string_def placed_def)

lemma run_order_stranger:
  "create_order testLib 7 ''64b0000000000000000000c1'' shop
     (order_req ''64b0000000000000000000a2'' (JArr [line ''64b0000000000000000000f1'' 1])
        (JNum 20))
   = (json 404 (error_body ''User not found''), shop)"
  by (simp add: create_order_def testLib_def shop_def alice_def lamp_def line_def order_req_def
      findById_def)

lemma run_order_missing:
  "create_order testLib 7 ''64b0000000000000000000c1'' shop
     (order_req ''64b0000000000000000000a1''
        (JArr [line ''64b0000000000000000000f1'' 1, line ''64b0000000000000000000f2'' 1])
        (JNum 40))
   = (json 404 (error_body ''One or more products not found''), shop)"
  by (simp add: create_order_def testLib_def shop_def alice_def lamp_def line_def order_req_def
      findById_def find_in_def)


section \<open>Order creation: the claims\<close>

text \<open>
  C1.  The claim: when every productId of the payload is valid and resolves to an Image
  (the same productId may stand in several line items) and the userId resolves to a User,
  the check of the products passes and the order is stored with a 201.

  The handler compares the number of documents found with the number of line items, not
  with the number of distinct identifiers.  The theorem is what it does under the
  hypotheses of the claim when an identifier is repeated: every check before the products
  passes, every identifier resolves, and the answer is 404, ``One or more products not
  found'', with nothing stored.
\<close>

theorem repeated_product_not_found:
  assumes "truthy (field b ''userId'')" "truthy (field b ''name'')"
    "truthy (field b ''address'')" "truthy (field b ''paymentType'')"
    "truthy (field b ''amount'')"
    and "isValid L (field b ''userId'')"
    and "field b ''products'' = JArr items" "check_items L items = Proceed ()"
    and "findById L acc_id (users d) (field b ''userId'') = Inr (Some u)"
    and "props items ''productId'' = Inr ids" "cast_ids L ids = Some oids"
    and "set oids \<subseteq> set (map img_id (images d))"
    and "distinct (map img_id (images d))" "\<not> distinct oids"
  shows "create_order L now fresh d b =
     (json 404 (error_body ''One or more products not found''), d)"
proof -
  have "length (filter (\<lambda>x. img_id x \<in> set oids) (images d)) \<noteq> length ids"
    using filter_ids_short[OF assms(13,14)] cast_ids_length[OF assms(11)] by simp
  then show ?thesis
    using assms by (simp add: create_order_def find_in_def)
qed

theorem repeated_product_not_found_witness:
  "set [''64b0000000000000000000f1'', ''64b0000000000000000000f1'']
     \<subseteq> set (map img_id (images shop)) \<and>
   create_order testLib 7 ''64b0000000000000000000c1'' shop
     (order_req ''64b0000000000000000000a1''
        (JArr [line ''64b0000000000000000000f1'' 1, line ''64b0000000000000000000f1'' 2])
        (JNum 60))
   = (json 404 (error_body ''One or more products not found''), shop)"
proof -
  have "set [''64b0000000000000000000f1'', ''64b0000000000000000000f1'']
     \<subseteq> set (map img_id (images shop))"
    by (simp add: shop_def lamp_def)
  moreover have "create_order testLib 7 ''64b0000000000000000000c1'' shop
     (order_req ''64b0000000000000000000a1''
        (JArr [line ''64b0000000000000000000f1'' 1, line ''64b0000000000000000000f1'' 2])
        (JNum 60))
   = (json 404 (error_body ''One or more products not found''), shop)"
    by (rule repeated_product_not_found[where u = alice
          and items = "[line ''64b0000000000000000000f1'' 1, line ''64b0000000000000000000f1'' 2]"
          and ids = "[JStr ''64b0000000000000000000f1'', JStr ''64b0000000000000000000f1'']"
          and oids = "[''64b0000000000000000000f1'', ''64b0000000000000000000f1'']"])
      (simp_all add: order_req_def line_def testLib_def shop_def alice_def lamp_def
        findById_def)
  ultimately show ?thesis by simp
qed

text \<open>
  C2.  Whenever the handler answers 201, the database is the old one with one order added
  at the end, and that order has paymentStatus ``pending'' and createdAt the time of the
  call, whatever the body of the request holds (a \<^verbatim>\<open>paymentStatus\<close> of its own included:
  the handler never reads that property).
\<close>

theorem created_order_is_pending:
  assumes "status (fst (create_order L now fresh d b)) = 201"
  shows "\<exists>ord. snd (create_order L now fresh d b) = d\<lparr>orders := orders d @ [ord]\<rparr> \<and>
       paymentStatus ord = ''pending'' \<and> createdAt ord = now"
proof -
  have "status (fst (create_order L now fresh d b)) = 201 \<longrightarrow>
     (\<exists>ord. snd (create_order L now fresh d b) = d\<lparr>orders := orders d @ [ord]\<rparr> \<and>
       paymentStatus ord = ''pending'' \<and> createdAt ord = now)"
    by (rule create_order_cases[where P = "\<lambda>x. status (fst x) = 201 \<longrightarrow>
     (\<exists>ord. snd x = d\<lparr>orders := orders d @ [ord]\<rparr> \<and>
       paymentStatus ord = ''pending'' \<and> createdAt ord = now)"])
      (use Order_create_defaults in \<open>auto simp: status_json\<close>)
  with assms show ?thesis by simp
qed

theorem created_order_is_pending_witness:
  "field (order_req ''64b0000000000000000000a1'' (JArr [line ''64b0000000000000000000f1'' 1])
      (JNum 20)) ''paymentStatus'' = JStr ''paid'' \<and>
   status (fst (create_order testLib 7 ''64b0000000000000000000c1'' shop
     (order_req ''64b0000000000000000000a1'' (JArr [line ''64b0000000000000000000f1'' 1])
        (JNum 20)))) = 201 \<and>
   (\<exists>ord. snd (create_order testLib 7 ''64b0000000000000000000c1'' shop
        (order_req ''64b0000000000000000000a1'' (JArr [line ''64b0000000000000000000f1'' 1])
           (JNum 20))) = shop\<lparr>orders := orders shop @ [ord]\<rparr> \<and>
      paymentStatus ord = ''pending'' \<and> createdAt ord = 7)"
proof -
  let ?R = "create_order testLib 7 ''64b0000000000000000000c1'' shop
     (order_req ''64b0000000000000000000a1'' (JArr [line ''64b0000000000000000000f1'' 1])
        (JNum 20))"
  have s: "status (fst ?R) = 201"
    by (simp add: run_order_one status_json)
  have p: "field (order_req ''64b0000000000000000000a1''
      (JArr [line ''64b0000000000000000000f1'' 1]) (JNum 20)) ''paymentStatus'' = JStr ''paid''"
    by (simp add: order_req_def)
  from created_order_is_pending[OF s] s p show ?thesis by blast
qed

text \<open>
  C3.  A request that fails a check stores no order.
  \<^item> Whenever the answer is not 201, the database (the orders with it) is the one before
    the call.
  \<^item> The answer is 201 only when every check of the handler passed: the six properties are
    truthy, the userId is valid, every line item has a valid productId and a whole quantity
    of at least 1, the lookup of the user finds a record, and the lookup of the products
    finds as many documents as there are productIds.
  \<^item> The answer is 201 only when the userId is the identifier of a User of the database.
  \<^item> In a catalogue where no identifier stands twice, the answer is 201 only when the
    productId of every line item is the identifier of an Image of the catalogue.
  So a request with a missing property, an invalid userId or productId, an invalid
  quantity, a userId of no User or a productId of no Image is answered with another status,
  and by the first part writes nothing.
\<close>

theorem failed_order_writes_nothing:
  "(status (fst (create_order L now fresh d b)) \<noteq> 201 \<longrightarrow>
      snd (create_order L now fresh d b) = d) \<and>
   (status (fst (create_order L now fresh d b)) = 201 \<longrightarrow>
      truthy (field b ''userId'') \<and> truthy (field b ''products'') \<and>
      truthy (field b ''name'') \<and> truthy (field b ''address'') \<and>
      truthy (field b ''paymentType'') \<and> truthy (field b ''amount'') \<and>
      isValid L (field b ''userId'') \<and>
      (\<exists>items. for_of (field b ''products'') = Inr items \<and>
         (\<forall>item\<in>set items. \<exists>pid q. get_prop item ''productId'' = Inr pid \<and> isValid L pid \<and>
            get_prop item ''quantity'' = Inr (JNum q) \<and> of_int \<lfloor>q\<rfloor> = q \<and> 1 \<le> q)) \<and>
      (\<exists>u. findById L acc_id (users d) (field b ''userId'') = Inr (Some u)) \<and>
      (\<exists>ids found. map_productId (field b ''products'') = Inr ids \<and>
         find_in L (images d) ids = Inr found \<and> length found = length ids)) \<and>
   (status (fst (create_order L now fresh d b)) = 201 \<longrightarrow>
      (\<exists>u. castObjectId L (field b ''userId'') = Some (acc_id u) \<and> u \<in> set (users d))) \<and>
   (distinct (map img_id (images d)) \<longrightarrow>
    status (fst (create_order L now fresh d b)) = 201 \<longrightarrow>
      (\<exists>items. field b ''products'' = JArr items \<and>
         (\<forall>item\<in>set items. \<exists>pid i. get_prop item ''productId'' = Inr pid \<and>
            castObjectId L pid = Some i \<and> i \<in> set (map img_id (images d)))))"
proof -
  let ?R = "create_order L now fresh d b"
  have base: "(status (fst ?R) \<noteq> 201 \<longrightarrow> snd ?R = d) \<and>
   (status (fst ?R) = 201 \<longrightarrow>
      truthy (field b ''userId'') \<and> truthy (field b ''products'') \<and>
      truthy (field b ''name'') \<and> truthy (field b ''address'') \<and>
      truthy (field b ''paymentType'') \<and> truthy (field b ''amount'') \<and>
      isValid L (field b ''userId'') \<and>
      (\<exists>items. for_of (field b ''products'') = Inr items \<and>
         (\<forall>item\<in>set items. \<exists>pid q. get_prop item ''productId'' = Inr pid \<and> isValid L pid \<and>
            get_prop item ''quantity'' = Inr (JNum q) \<and> of_int \<lfloor>q\<rfloor> = q \<and> 1 \<le> q)) \<and>
      (\<exists>u. findById L acc_id (users d) (field b ''userId'') = Inr (Some u)) \<and>
      (\<exists>ids found. map_productId (field b ''products'') = Inr ids \<and>
         find_in L (images d) ids = Inr found \<and> length found = length ids))"
    by (rule create_order_cases[where P = "\<lambda>x. (status (fst x) \<noteq> 201 \<longrightarrow> snd x = d) \<and>
   (status (fst x) = 201 \<longrightarrow>
      truthy (field b ''userId'') \<and> truthy (field b ''products'') \<and>
      truthy (field b ''name'') \<and> truthy (field b ''address'') \<and>
      truthy (field b ''paymentType'') \<and> truthy (field b ''amount'') \<and>
      isValid L (field b ''userId'') \<and>
      (\<exists>items. for_of (field b ''products'') = Inr items \<and>
         (\<forall>item\<in>set items. \<exists>pid q. get_prop item ''productId'' = Inr pid \<and> isValid L pid \<and>
            get_prop item ''quantity'' = Inr (JNum q) \<and> of_int \<lfloor>q\<rfloor> = q \<and> 1 \<le> q)) \<and>
      (\<exists>u. findById L acc_id (users d) (field b ''userId'') = Inr (Some u)) \<and>
      (\<exists>ids found. map_productId (field b ''products'') = Inr ids \<and>
         find_in L (images d) ids = Inr found \<and> length found = length ids))"])
      (use check_items_Proceed in \<open>auto simp: status_json\<close>)
  have user: "\<exists>u. castObjectId L (field b ''userId'') = Some (acc_id u) \<and> u \<in> set (users d)"
    if "status (fst ?R) = 201"
  proof -
    from base that obtain u
      where "findById L acc_id (users d) (field b ''userId'') = Inr (Some u)"
      by blast
    from user_resolves[OF this] show ?thesis by blast
  qed
  have prods: "\<exists>items. field b ''products'' = JArr items \<and>
         (\<forall>item\<in>set items. \<exists>pid i. get_prop item ''productId'' = Inr pid \<and>
            castObjectId L pid = Some i \<and> i \<in> set (map img_id (images d)))"
    if "distinct (map img_id (images d))" "status (fst ?R) = 201"
  proof -
    from base that(2) obtain ids found
      where "map_productId (field b ''products'') = Inr ids"
        "find_in L (images d) ids = Inr found" "length found = length ids"
      by blast
    from products_resolve[OF that(1) this] show ?thesis .
  qed
  from base user prods show ?thesis by blast
qed

theorem failed_order_writes_nothing_witness:
  "status (fst (create_order testLib 7 ''64b0000000000000000000c1'' shop
     (order_req ''64b0000000000000000000a2'' (JArr [line ''64b0000000000000000000f1'' 1])
        (JNum 20)))) = 404 \<and>
   snd (create_order testLib 7 ''64b0000000000000000000c1'' shop
     (order_req ''64b0000000000000000000a2'' (JArr [line ''64b0000000000000000000f1'' 1])
        (JNum 20))) = shop \<and>
   distinct (map img_id (images shop)) \<and>
   ''64b0000000000000000000f2'' \<notin> set (map img_id (images shop)) \<and>
   status (fst (create_order testLib 7 ''64b0000000000000000000c1'' shop
     (order_req ''64b0000000000000000000a1''
        (JArr [line ''64b0000000000000000000f1'' 1, line ''64b0000000000000000000f2'' 1])
        (JNum 40)))) \<noteq> 201 \<and>
   snd (create_order testLib 7 ''64b0000000000000000000c1'' shop
     (order_req ''64b0000000000000000000a1''
        (JArr [line ''64b0000000000000000000f1'' 1, line ''64b0000000000000000000f2'' 1])
        (JNum 40))) = shop"
proof -
  let ?bs = "order_req ''64b0000000000000000000a2''
      (JArr [line ''64b0000000000000000000f1'' 1]) (JNum 20)"
  let ?bm = "order_req ''64b0000000000000000000a1''
      (JArr [line ''64b0000000000000000000f1'' 1, line ''64b0000000000000000000f2'' 1])
      (JNum 40)"
  let ?Rs = "create_order testLib 7 ''64b0000000000000000000c1'' shop ?bs"
  let ?Rm = "create_order testLib 7 ''64b0000000000000000000c1'' shop ?bm"
  note rs = failed_order_writes_nothing[of testLib 7 "''64b0000000000000000000c1''" shop ?bs]
  note rm = failed_order_writes_nothing[of testLib 7 "''64b0000000000000000000c1''" shop ?bm]
  have s: "status (fst ?Rs) = 404"
    by (simp add: run_order_stranger status_json)
  then have "status (fst ?Rs) \<noteq> 201" by simp
  with rs have us: "snd ?Rs = shop" by blast
  have dist: "distinct (map img_id (images shop))"
    and out: "''64b0000000000000000000f2'' \<notin> set (map img_id (images shop))"
    by (simp_all add: shop_def lamp_def)
  have nm: "status (fst ?Rm) \<noteq> 201"
  proof
    assume "status (fst ?Rm) = 201"
    with rm dist obtain items where items: "field ?bm ''products'' = JArr items"
      and every: "\<forall>item\<in>set items. \<exists>pid i. get_prop item ''productId'' = Inr pid \<and>
            castObjectId testLib pid = Some i \<and> i \<in> set (map img_id (images shop))"
      by blast
    from items have "line ''64b0000000000000000000f2'' 1 \<in> set items"
      by (auto simp: order_req_def)
    with every obtain pid i
      where "get_prop (line ''64b0000000000000000000f2'' 1) ''productId'' = Inr pid"
        "castObjectId testLib pid = Some i" "i \<in> set (map img_id (images shop))"
      by blast
    then show False
      by (auto simp: line_def testLib_def shop_def lamp_def split: if_splits)
  qed
  with rm have um: "snd ?Rm = shop" by blast
  from s us dist out nm um show ?thesis by blast
qed


text \<open>
  C4.  The claim: a payload whose \<^verbatim>\<open>products\<close> is the empty list fails validation with a
  400 and stores no order.  On the code an empty array is truthy, the loop over it runs no
  step and the lookup of no identifier finds no document, as many as asked for; the small
  shop stores an order without line items and answers 201.
\<close>

theorem empty_products_counterexample:
  "status (fst (create_order testLib 7 ''64b0000000000000000000c1'' shop
      (order_req ''64b0000000000000000000a1'' (JArr []) (JNum 20)))) = 201 \<and>
   map products (orders (snd (create_order testLib 7 ''64b0000000000000000000c1'' shop
      (order_req ''64b0000000000000000000a1'' (JArr []) (JNum 20))))) = [[]]"
  by (simp add: run_order_empty status_json placed_def)

text \<open>
  C4 as amended.  A payload whose \<^verbatim>\<open>products\<close> is the empty list is not refused for that:
  when its other five properties are truthy, its userId is valid and resolves to a User,
  and the casts of the schema succeed, the order is stored without line items and the
  answer is 201.
\<close>

theorem empty_products_accepted:
  assumes "field b ''products'' = JArr []"
    and "truthy (field b ''userId'')" "truthy (field b ''name'')"
    "truthy (field b ''address'')" "truthy (field b ''paymentType'')"
    "truthy (field b ''amount'')"
    and "isValid L (field b ''userId'')"
    and "findById L acc_id (users d) (field b ''userId'') = Inr (Some u)"
    and "Order_create L now fresh (field b ''userId'') (field b ''products'') (field b ''name'')
          (field b ''address'') (field b ''paymentType'') (field b ''amount'') = Inr ord"
  shows "create_order L now fresh d b =
           (json 201 (JObj [(''order'', order_json L ord)]), d\<lparr>orders := orders d @ [ord]\<rparr>) \<and>
         products ord = []"
proof -
  have "products ord = []"
    using assms(1,9) Order_create_no_items by simp
  moreover have "create_order L now fresh d b =
      (json 201 (JObj [(''order'', order_json L ord)]), d\<lparr>orders := orders d @ [ord]\<rparr>)"
    using assms by (simp add: create_order_def find_in_def)
  ultimately show ?thesis by simp
qed

theorem empty_products_accepted_witness:
  "field (order_req ''64b0000000000000000000a1'' (JArr []) (JNum 20)) ''products'' = JArr [] \<and>
   create_order testLib 7 ''64b0000000000000000000c1'' shop
     (order_req ''64b0000000000000000000a1'' (JArr []) (JNum 20)) =
     (json 201 (JObj [(''order'', order_json testLib (placed [] 20))]),
      shop\<lparr>orders := orders shop @ [placed [] 20]\<rparr>) \<and>
   products (placed [] 20) = []"
proof -
  have "create_order testLib 7 ''64b0000000000000000000c1'' shop
     (order_req ''64b0000000000000000000a1'' (JArr []) (JNum 20)) =
     (json 201 (JObj [(''order'', order_json testLib (placed [] 20))]),
      shop\<lparr>orders := orders shop @ [placed [] 20]\<rparr>) \<and>
   products (placed [] 20) = []"
    by (rule empty_products_accepted[where u = alice])
      (simp_all add: order_req_def testLib_def shop_def alice_def findById_def
        Order_create_def required_string_def placed_def)
  then show ?thesis by (simp add: order_req_def)
qed

text \<open>
  C5.  The claim: a payload with \<^verbatim>\<open>amount\<close> 0 and every other property present passes the
  check of the required properties.  The handler tests \<^verbatim>\<open>!amount\<close>, and 0 is falsy: whatever
  else the payload holds, the answer is 400, ``All fields are required'', and nothing is
  stored.  (The handler of /upload tests its number with \<^verbatim>\<open>price === undefined\<close>, which
  lets 0 through.)
\<close>

theorem zero_amount_rejected:
  assumes "field b ''amount'' = JNum 0"
  shows "create_order L now fresh d b = (json 400 (error_body ''All fields are required''), d)"
  using assms by (simp add: create_order_def)

theorem zero_amount_rejected_witness:
  "field (order_req ''64b0000000000000000000a1'' (JArr [line ''64b0000000000000000000f1'' 1])
      (JNum 0)) ''amount'' = JNum 0 \<and>
   create_order testLib 7 ''64b0000000000000000000c1'' shop
     (order_req ''64b0000000000000000000a1'' (JArr [line ''64b0000000000000000000f1'' 1])
        (JNum 0))
   = (json 400 (error_body ''All fields are required''), shop)"
proof -
  have a: "field (order_req ''64b0000000000000000000a1''
      (JArr [line ''64b0000000000000000000f1'' 1]) (JNum 0)) ''amount'' = JNum 0"
    by (simp add: order_req_def)
  from zero_amount_rejected[OF a] a show ?thesis by simp
qed

section \<open>Registration and login\<close>

lemma findOne_email_known:
  "e \<in> set (map email coll) \<Longrightarrow>
     \<exists>a. findOne_email L coll (JStr e) = Inr (Some a) \<and> email a = e \<and> a \<in> set coll"
  by (cases "find (\<lambda>d. email d = e) coll")
    (auto simp: findOne_email_def find_None_iff find_Some_iff)

lemma findOne_email_unknown:
  "e \<notin> set (map email coll) \<Longrightarrow> findOne_email L coll (JStr e) = Inr None"
  by (auto simp: findOne_email_def find_None_iff)

lemma register_duplicate:
  assumes "field b ''email'' = JStr e" "e \<in> set (map email coll)"
  shows "status (fst (register L fresh m k coll b)) = 400 \<and>
         snd (register L fresh m k coll b) = coll"
proof -
  from findOne_email_known[OF assms(2)]
  obtain a where "findOne_email L coll (JStr e) = Inr (Some a)"
    by blast
  with assms(1) show ?thesis
    by (simp add: register_def status_json Let_def)
qed

text \<open>
  C8.  A registration whose email is a string equal, character by character, to the email
  of a record of the same collection is answered with 400, and the database after the call
  is the database before it: no record is written, the number of records is unchanged.
  This holds for the users and for the admins, each against its own collection, and
  whatever else the request holds.
\<close>

theorem duplicate_email_rejected:
  assumes "field b ''email'' = JStr e"
  shows "(e \<in> set (map email (users d)) \<longrightarrow>
            status (fst (create_users L fresh d b)) = 400 \<and>
            snd (create_users L fresh d b) = d) \<and>
         (e \<in> set (map email (admins d)) \<longrightarrow>
            status (fst (create_admins L fresh d b)) = 400 \<and>
            snd (create_admins L fresh d b) = d)"
  using register_duplicate[OF assms, of "users d" L fresh
      "''User registered successfully''" "''user''"]
    register_duplicate[OF assms, of "admins d" L fresh
      "''Admin registered successfully''" "''admin''"]
  by (simp add: create_users_def create_admins_def split_beta)

theorem duplicate_email_rejected_witness:
  "''alice@example.com'' \<in> set (map email (users shop)) \<and>
   status (fst (create_users testLib ''64b0000000000000000000a2'' shop
      (account_req ''alice@example.com'' ''secret'' JUndefined))) = 400 \<and>
   snd (create_users testLib ''64b0000000000000000000a2'' shop
      (account_req ''alice@example.com'' ''secret'' JUndefined)) = shop \<and>
   ''alice@example.com'' \<in> set (map email (admins shop)) \<and>
   status (fst (create_admins testLib ''64b0000000000000000000a2'' shop
      (account_req ''alice@example.com'' ''secret'' JUndefined))) = 400 \<and>
   snd (create_admins testLib ''64b0000000000000000000a2'' shop
      (account_req ''alice@example.com'' ''secret'' JUndefined)) = shop"
proof -
  have e: "field (account_req ''alice@example.com'' ''secret'' JUndefined) ''email''
      = JStr ''alice@example.com''"
    by (simp add: account_req_def)
  have u: "''alice@example.com'' \<in> set (map email (users shop))"
    and a: "''alice@example.com'' \<in> set (map email (admins shop))"
    by (simp_all add: shop_def alice_def)
  from duplicate_email_rejected[OF e, of shop testLib "''64b0000000000000000000a2''"] u a
  show ?thesis by blast
qed

lemma user_login_unknown:
  assumes "field b ''email'' = JStr e" "e \<noteq> []" "truthy (field b ''password'')"
    and "e \<notin> set (map email (users d))"
  shows "user_login L d b = json 401 (error_body ''Invalid email or password'')"
  using assms findOne_email_unknown[OF assms(4), of L]
  by (simp add: user_login_def Let_def)

lemma user_login_mismatch:
  assumes "field b ''email'' = JStr e" "e \<noteq> []" "truthy (field b ''password'')"
    and "find (\<lambda>a. email a = e) (users d) = Some u"
    and "bcrypt_compare L (field b ''password'') (password u) = Some False"
  shows "user_login L d b = json 401 (error_body ''Invalid email or password'')"
  using assms by (simp add: user_login_def findOne_email_def Let_def)

lemma admin_login_unknown:
  assumes "field b ''email'' = JStr e" "e \<noteq> []" "truthy (field b ''password'')"
    and "e \<notin> set (map email (admins d))"
  shows "admin_login L d b = json 401 (error_body ''Invalid email or password'')"
  using assms findOne_email_unknown[OF assms(4), of L]
  by (simp add: admin_login_def Let_def)

lemma admin_login_mismatch:
  assumes "field b ''email'' = JStr e" "e \<noteq> []" "truthy (field b ''password'')"
    and "find (\<lambda>a. email a = e) (admins d) = Some u"
    and "bcrypt_compare L (field b ''password'') (password u) = Some False"
  shows "admin_login L d b = json 401 (error_body ''Invalid email or password'')"
  using assms by (simp add: admin_login_def findOne_email_def Let_def)

text \<open>
  When the comparison of the password resolves to false, the attempt with a known email gets
  the response of the attempt with an unknown one: status 401, ``Invalid email or password''.
\<close>

lemma login_failures_equal_when_compared:
  assumes "field b1 ''email'' = JStr e1" "e1 \<noteq> []" "truthy (field b1 ''password'')"
    and "field b2 ''email'' = JStr e2" "e2 \<noteq> []" "truthy (field b2 ''password'')"
  shows "(e1 \<notin> set (map email (users d)) \<and>
          (\<exists>u. find (\<lambda>a. email a = e2) (users d) = Some u \<and>
               bcrypt_compare L (field b2 ''password'') (password u) = Some False) \<longrightarrow>
            user_login L d b1 = user_login L d b2 \<and>
            user_login L d b1 = json 401 (error_body ''Invalid email or password'')) \<and>
         (e1 \<notin> set (map email (admins d)) \<and>
          (\<exists>u. find (\<lambda>a. email a = e2) (admins d) = Some u \<and>
               bcrypt_compare L (field b2 ''password'') (password u) = Some False) \<longrightarrow>
            admin_login L d b1 = admin_login L d b2 \<and>
            admin_login L d b1 = json 401 (error_body ''Invalid email or password''))"
  using user_login_unknown[OF assms(1-3)] user_login_mismatch[OF assms(4-6)]
    admin_login_unknown[OF assms(1-3)] admin_login_mismatch[OF assms(4-6)]
  by auto

lemma user_login_rejected:
  assumes "field b ''email'' = JStr e" "e \<noteq> []" "truthy (field b ''password'')"
    and "find (\<lambda>a. email a = e) (users d) = Some u"
    and "bcrypt_compare L (field b ''password'') (password u) = None"
  shows "user_login L d b = caught L ''Login failed'' BcryptError"
  using assms by (simp add: user_login_def findOne_email_def Let_def)

lemma admin_login_rejected:
  assumes "field b ''email'' = JStr e" "e \<noteq> []" "truthy (field b ''password'')"
    and "find (\<lambda>a. email a = e) (admins d) = Some u"
    and "bcrypt_compare L (field b ''password'') (password u) = None"
  shows "admin_login L d b = caught L ''Login failed'' BcryptError"
  using assms by (simp add: admin_login_def findOne_email_def Let_def)

text \<open>
  C6.  The claim: of two failed login attempts, one with an email of no record and one with
  the email of a record and a password that does not match, both get the same message and
  the status 401, so the response does not tell whether the email exists.

  The handlers let any truthy password through to \<^verbatim>\<open>bcrypt.compare\<close>, which is only called
  when a record was found.  When that call rejects (as it does for a password that is not a
  string, a number of the JSON body say) the \<^verbatim>\<open>catch\<close> block answers 500, ``Login failed'',
  while the same password with an email of no record gets 401: the two responses differ,
  and the status tells that the email exists.  This holds for /user-login and for
  /admin-login.
\<close>

theorem login_reveals_known_email:
  assumes "field b1 ''email'' = JStr e1" "e1 \<noteq> []" "truthy (field b1 ''password'')"
    and "field b2 ''email'' = JStr e2" "e2 \<noteq> []" "truthy (field b2 ''password'')"
  shows "(e1 \<notin> set (map email (users d)) \<and>
          (\<exists>u. find (\<lambda>a. email a = e2) (users d) = Some u \<and>
               bcrypt_compare L (field b2 ''password'') (password u) = None) \<longrightarrow>
            status (user_login L d b1) = 401 \<and> status (user_login L d b2) = 500 \<and>
            user_login L d b1 \<noteq> user_login L d b2) \<and>
         (e1 \<notin> set (map email (admins d)) \<and>
          (\<exists>u. find (\<lambda>a. email a = e2) (admins d) = Some u \<and>
               bcrypt_compare L (field b2 ''password'') (password u) = None) \<longrightarrow>
            status (admin_login L d b1) = 401 \<and> status (admin_login L d b2) = 500 \<and>
            admin_login L d b1 \<noteq> admin_login L d b2)"
proof -
  have "status (user_login L d b1) = 401 \<and> status (user_login L d b2) = 500 \<and>
      user_login L d b1 \<noteq> user_login L d b2"
    if "e1 \<notin> set (map email (users d))" "find (\<lambda>a. email a = e2) (users d) = Some u"
      "bcrypt_compare L (field b2 ''password'') (password u) = None" for u
  proof -
    have "status (user_login L d b1) = 401"
      using user_login_unknown[OF assms(1-3) that(1)] by (simp add: status_json)
    moreover have "status (user_login L d b2) = 500"
      using user_login_rejected[OF assms(4-6) that(2,3)] by (simp add: status_caught)
    ultimately show ?thesis by auto
  qed
  moreover have "status (admin_login L d b1) = 401 \<and> status (admin_login L d b2) = 500 \<and>
      admin_login L d b1 \<noteq> admin_login L d b2"
    if "e1 \<notin> set (map email (admins d))" "find (\<lambda>a. email a = e2) (admins d) = Some u"
      "bcrypt_compare L (field b2 ''password'') (password u) = None" for u
  proof -
    have "status (admin_login L d b1) = 401"
      using admin_login_unknown[OF assms(1-3) that(1)] by (simp add: status_json)
    moreover have "status (admin_login L d b2) = 500"
      using admin_login_rejected[OF assms(4-6) that(2,3)] by (simp add: status_caught)
    ultimately show ?thesis by auto
  qed
  ultimately show ?thesis by blast
qed

theorem login_reveals_known_email_witness:
  "status (user_login testLib shop (login_num ''nobody@example.com'' 12345)) = 401 \<and>
   status (user_login testLib shop (login_num ''alice@example.com'' 12345)) = 500 \<and>
   user_login testLib shop (login_num ''nobody@example.com'' 12345) \<noteq>
     user_login testLib shop (login_num ''alice@example.com'' 12345) \<and>
   status (admin_login testLib shop (login_num ''nobody@example.com'' 12345)) = 401 \<and>
   status (admin_login testLib shop (login_num ''alice@example.com'' 12345)) = 500 \<and>
   admin_login testLib shop (login_num ''nobody@example.com'' 12345) \<noteq>
     admin_login testLib shop (login_num ''alice@example.com'' 12345)"
proof -
  let ?b1 = "login_num ''nobody@example.com'' 12345"
  let ?b2 = "login_num ''alice@example.com'' 12345"
  have h1: "field ?b1 ''email'' = JStr ''nobody@example.com''" "''nobody@example.com'' \<noteq> []"
    "truthy (field ?b1 ''password'')"
    and h2: "field ?b2 ''email'' = JStr ''alice@example.com''" "''alice@example.com'' \<noteq> []"
    "truthy (field ?b2 ''password'')"
    by (simp_all add: login_num_def)
  have u: "''nobody@example.com'' \<notin> set (map email (users shop))"
    "\<exists>u. find (\<lambda>a. email a = ''alice@example.com'') (users shop) = Some u \<and>
       bcrypt_compare testLib (field ?b2 ''password'') (password u) = None"
    and a: "''nobody@example.com'' \<notin> set (map email (admins shop))"
    "\<exists>u. find (\<lambda>a. email a = ''alice@example.com'') (admins shop) = Some u \<and>
       bcrypt_compare testLib (field ?b2 ''password'') (password u) = None"
    by (simp_all add: login_num_def shop_def alice_def testLib_def)
  from login_reveals_known_email[OF h1 h2, of shop testLib] u a show ?thesis
    by blast
qed


section \<open>The lookup of the cart\<close>

lemma cast_ids_None: "cast_ids L ids = None \<longleftrightarrow> (\<exists>v\<in>set ids. castObjectId L v = None)"
  by (induction ids) (auto split: option.splits)

lemma cart_items_array:
  "field b ''ids'' = JArr ids \<Longrightarrow>
     cart_items L d b =
       (case find_in L (images d) ids of
          Inl e \<Rightarrow> caught L ''Fetch failed'' e
        | Inr found \<Rightarrow> json 200 (JArr (map image_json found)))"
  by (simp add: cart_items_def)

lemma cart_items_400:
  "status (cart_items L d b) = 400 \<longleftrightarrow> (\<forall>ids. field b ''ids'' \<noteq> JArr ids)"
  by (cases "field b ''ids''")
    (simp_all add: cart_items_def status_json status_caught split: sum.split)

lemma cart_items_cast_error:
  assumes "field b ''ids'' = JArr ids" "v \<in> set ids" "castObjectId L v = None"
  shows "cart_items L d b = caught L ''Fetch failed'' CastError"
proof -
  from assms(2,3) have "cast_ids L ids = None"
    by (auto simp: cast_ids_None)
  with assms(1) show ?thesis
    by (simp add: cart_items_def find_in_def)
qed

lemma cast_ids_isValid: "cast_ids (L\<lparr>isValid := f\<rparr>) ids = cast_ids L ids"
  by (induction ids) (simp_all split: option.split)

lemma cart_items_isValid: "cart_items (L\<lparr>isValid := f\<rparr>) d b = cart_items L d b"
  by (simp add: cart_items_def find_in_def cast_ids_isValid caught_def
      split: jv.split sum.split option.split)

text \<open>
  C10.  The handler of /cart-items answers 400 exactly when \<^verbatim>\<open>ids\<close> is not an array.  For an
  array it answers with the outcome of the lookup and nothing else: the documents found,
  or, when the lookup fails, status 500.  In particular an array holding a value that the
  cast to an identifier refuses gets the 500 of the cast error, not a 400.  The format of
  the elements is never checked: the response is the same whatever
  \<^verbatim>\<open>ObjectId.isValid\<close> would say of them.
\<close>

theorem cart_items_unvalidated:
  "(status (cart_items L d b) = 400 \<longleftrightarrow> (\<forall>ids. field b ''ids'' \<noteq> JArr ids)) \<and>
   (\<forall>ids. field b ''ids'' = JArr ids \<longrightarrow>
      cart_items L d b =
        (case find_in L (images d) ids of
           Inl e \<Rightarrow> caught L ''Fetch failed'' e
         | Inr found \<Rightarrow> json 200 (JArr (map image_json found)))) \<and>
   (\<forall>ids v. field b ''ids'' = JArr ids \<longrightarrow> v \<in> set ids \<longrightarrow> castObjectId L v = None \<longrightarrow>
      cart_items L d b = caught L ''Fetch failed'' CastError \<and>
      status (cart_items L d b) = 500) \<and>
   (\<forall>f. cart_items (L\<lparr>isValid := f\<rparr>) d b = cart_items L d b)"
  using cart_items_400 cart_items_array cart_items_cast_error cart_items_isValid
  by (simp add: status_caught)

theorem cart_items_unvalidated_witness:
  "isValid testLib (JStr ''lamp'') = False \<and>
   cart_items testLib shop (JObj [(''ids'', JArr [JStr ''lamp''])])
     = caught testLib ''Fetch failed'' CastError \<and>
   status (cart_items testLib shop (JObj [(''ids'', JArr [JStr ''lamp''])])) = 500 \<and>
   status (cart_items testLib shop (JObj [(''ids'', JStr ''lamp'')])) = 400"
proof -
  have v: "isValid testLib (JStr ''lamp'') = False"
    and c: "castObjectId testLib (JStr ''lamp'') = None"
    by (simp_all add: testLib_def)
  have f: "field (JObj [(''ids'', JArr [JStr ''lamp''])]) ''ids'' = JArr [JStr ''lamp'']"
    by simp
  have m: "JStr ''lamp'' \<in> set [JStr ''lamp'']"
    by simp
  from cart_items_unvalidated[of testLib shop "JObj [(''ids'', JArr [JStr ''lamp''])]"] f m c
  have "cart_items testLib shop (JObj [(''ids'', JArr [JStr ''lamp''])])
     = caught testLib ''Fetch failed'' CastError \<and>
   status (cart_items testLib shop (JObj [(''ids'', JArr [JStr ''lamp''])])) = 500"
    by blast
  moreover
  have n: "\<forall>ids. field (JObj [(''ids'', JStr ''lamp'')]) ''ids'' \<noteq> JArr ids"
    by simp
  from cart_items_unvalidated[of testLib shop "JObj [(''ids'', JStr ''lamp'')]"] n
  have "status (cart_items testLib shop (JObj [(''ids'', JStr ''lamp'')])) = 400"
    by blast
  ultimately show ?thesis using v by blast
qed

section \<open>The limits on the size of an image\<close>

lemma fileSize_gt: "(fileSize bs > of_nat k) = (k * 1048576 < length bs)"
proof -
  have "(fileSize bs > of_nat k) = ((of_nat (k * 1048576) :: rat) < of_nat (length bs))"
    by (simp add: fileSize_def field_simps)
  then show ?thesis
    by (simp only: of_nat_less_iff)
qed

lemma fileSize_gt_1: "(fileSize bs > 1) = (1048576 < length bs)"
  using fileSize_gt[of 1 bs] by simp

lemma fileSize_gt_5: "(fileSize bs > 5) = (5242880 < length bs)"
  using fileSize_gt[of 5 bs] by simp

lemma startsWith_nonempty: "startsWith s ''data:image/'' \<Longrightarrow> s \<noteq> []"
  by (auto simp: startsWith_def)

lemma check_picture_size:
  assumes "startsWith pic ''data:image/''"
    and "image_type pic \<in> set [Some ''jpeg'', Some ''jpg'', Some ''png'']"
  shows "check_picture L (JStr pic) =
     (if 1048576 < length (base64decode L (strip_data_uri pic))
      then Reply (json 413 (error_body ''Profile picture size exceeds 1MB limit''))
      else Proceed pic)"
  using assms startsWith_nonempty[OF assms(1)]
  by (simp add: check_picture_def fileSize_gt_1 Let_def del: set_simps)

lemma register_size:
  assumes "truthy (field b ''firstName'')" "truthy (field b ''secondName'')"
    "truthy (field b ''email'')" "truthy (field b ''password'')"
    and "findOne_email L coll (field b ''email'') = Inr None"
    and "field b ''profilePicture'' = JStr pic" "startsWith pic ''data:image/''"
    and "image_type pic \<in> set [Some ''jpeg'', Some ''jpg'', Some ''png'']"
  shows "(length (base64decode L (strip_data_uri pic)) = 1048576 \<longrightarrow>
            status (fst (register L fresh m k coll b)) \<in> {201, 500}) \<and>
         (length (base64decode L (strip_data_uri pic)) = 1048577 \<longrightarrow>
            status (fst (register L fresh m k coll b)) = 413)"
  using assms(1-6)
  by (simp add: register_def Let_def check_picture_size[OF assms(7,8)] status_json
      status_caught split: option.split sum.split)

lemma upload_size:
  assumes "field c ''image'' = JStr img" "img \<noteq> []" "truthy (field c ''name'')"
    and "field c ''price'' \<noteq> JUndefined" "parseFloat L (field c ''price'') = Some p"
    and "0 \<le> p"
  shows "(length (base64decode L (strip_data_uri img)) = 5242880 \<longrightarrow>
            status (fst (upload L now fresh d c)) \<in> {200, 500}) \<and>
         (length (base64decode L (strip_data_uri img)) = 5242881 \<longrightarrow>
            status (fst (upload L now fresh d c)) = 413)"
  using assms
  by (simp add: upload_def Let_def fileSize_gt_5 status_json status_caught
      split: option.split sum.split)

subsection \<open>Payloads at the limits\<close>

lemma data_uri_nonempty: "data_uri n t \<noteq> []"
  by (simp add: data_uri_def)

lemma startsWith_data_uri: "startsWith (data_uri n t) ''data:image/''"
  by (simp add: startsWith_def data_uri_def)

lemma image_type_data_uri: "image_type (data_uri n t) = Some ''png''"
  by (simp add: image_type_def data_uri_def)

lemma strip_data_uri_data_uri: "strip_data_uri (data_uri n t) = replicate n (CHR ''A'') @ t"
  by (simp add: strip_data_uri_def data_uri_def startsWith_def word_char_def)

lemma decode_length:
  "length (base64decode testLib (replicate n (CHR ''A'') @ t)) =
     3 * ((n + length t) div 4) - length (filter (\<lambda>c. c = CHR ''='') t)"
  by (simp add: testLib_def)

lemma run_register_at_limit:
  "status (fst (register testLib ''64b0000000000000000000a2'' m k [alice]
      (account_req ''bob@example.com'' ''secret'' (JStr (data_uri 1398100 ''AA==''))))) = 201"
  by (simp add: register_def account_req_def findOne_email_def alice_def Let_def
      check_picture_size startsWith_data_uri image_type_data_uri strip_data_uri_data_uri
      decode_length Account_create_def required_string_def status_json data_uri_nonempty
      testLib_def)

lemma run_upload_at_limit:
  "status (fst (upload testLib 7 ''64b0000000000000000000f2'' shop
      (upload_req (data_uri 6990504 ''AAA='')))) = 200"
  by (simp add: upload_def upload_req_def fileSize_gt_5 strip_data_uri_data_uri decode_length
      Let_def image_type_data_uri Image_save_def required_string_def status_json
      data_uri_nonempty testLib_def)

text \<open>
  C9.  Each handler on its own, against its own collection.  A registration that reaches
  the check of the size (its four properties are truthy, its email is of no record of the
  collection, its profilePicture is a data URI of type jpeg, jpg or png): when the picture
  decodes to exactly 1048576 bytes the check passes, and the answer is the 201 of the
  stored record or the 500 of a later failure (the hash, the write); when it decodes to
  1048577 bytes the answer is 413.  An upload that reaches the check (image and name
  truthy, a price that parses to a number not below 0): at exactly 5242880 bytes the check
  passes, with the 200 of the stored image or the 500 of a later failure; at 5242881 bytes
  the answer is 413.
\<close>

theorem size_limits_at_the_boundary:
  "(truthy (field b ''firstName'') \<and> truthy (field b ''secondName'') \<and>
    truthy (field b ''email'') \<and> truthy (field b ''password'') \<and>
    findOne_email L (users d) (field b ''email'') = Inr None \<and>
    field b ''profilePicture'' = JStr pic \<and> startsWith pic ''data:image/'' \<and>
    image_type pic \<in> set [Some ''jpeg'', Some ''jpg'', Some ''png''] \<longrightarrow>
      (length (base64decode L (strip_data_uri pic)) = 1048576 \<longrightarrow>
         status (fst (create_users L fresh d b)) \<in> {201, 500}) \<and>
      (length (base64decode L (strip_data_uri pic)) = 1048577 \<longrightarrow>
         status (fst (create_users L fresh d b)) = 413)) \<and>
   (truthy (field b ''firstName'') \<and> truthy (field b ''secondName'') \<and>
    truthy (field b ''email'') \<and> truthy (field b ''password'') \<and>
    findOne_email L (admins d) (field b ''email'') = Inr None \<and>
    field b ''profilePicture'' = JStr pic \<and> startsWith pic ''data:image/'' \<and>
    image_type pic \<in> set [Some ''jpeg'', Some ''jpg'', Some ''png''] \<longrightarrow>
      (length (base64decode L (strip_data_uri pic)) = 1048576 \<longrightarrow>
         status (fst (create_admins L fresh d b)) \<in> {201, 500}) \<and>
      (length (base64decode L (strip_data_uri pic)) = 1048577 \<longrightarrow>
         status (fst (create_admins L fresh d b)) = 413)) \<and>
   (field c ''image'' = JStr img \<and> img \<noteq> [] \<and> truthy (field c ''name'') \<and>
    field c ''price'' \<noteq> JUndefined \<and> parseFloat L (field c ''price'') = Some p \<and>
    0 \<le> p \<longrightarrow>
      (length (base64decode L (strip_data_uri img)) = 5242880 \<longrightarrow>
         status (fst (upload L now fresh d c)) \<in> {200, 500}) \<and>
      (length (base64decode L (strip_data_uri img)) = 5242881 \<longrightarrow>
         status (fst (upload L now fresh d c)) = 413))"
proof -
  have users: "(length (base64decode L (strip_data_uri pic)) = 1048576 \<longrightarrow>
         status (fst (create_users L fresh d b)) \<in> {201, 500}) \<and>
      (length (base64decode L (strip_data_uri pic)) = 1048577 \<longrightarrow>
         status (fst (create_users L fresh d b)) = 413)"
    if "truthy (field b ''firstName'')" "truthy (field b ''secondName'')"
      "truthy (field b ''email'')" "truthy (field b ''password'')"
      "findOne_email L (users d) (field b ''email'') = Inr None"
      "field b ''profilePicture'' = JStr pic" "startsWith pic ''data:image/''"
      "image_type pic \<in> set [Some ''jpeg'', Some ''jpg'', Some ''png'']"
    using register_size[OF that, of fresh "''User registered successfully''" "''user''"]
    by (simp add: create_users_def split_beta)
  have admins: "(length (base64decode L (strip_data_uri pic)) = 1048576 \<longrightarrow>
         status (fst (create_admins L fresh d b)) \<in> {201, 500}) \<and>
      (length (base64decode L (strip_data_uri pic)) = 1048577 \<longrightarrow>
         status (fst (create_admins L fresh d b)) = 413)"
    if "truthy (field b ''firstName'')" "truthy (field b ''secondName'')"
      "truthy (field b ''email'')" "truthy (field b ''password'')"
      "findOne_email L (admins d) (field b ''email'') = Inr None"
      "field b ''profilePicture'' = JStr pic" "startsWith pic ''data:image/''"
      "image_type pic \<in> set [Some ''jpeg'', Some ''jpg'', Some ''png'']"
    using register_size[OF that, of fresh "''Admin registered successfully''" "''admin''"]
    by (simp add: create_admins_def split_beta)
  have up: "(length (base64decode L (strip_data_uri img)) = 5242880 \<longrightarrow>
         status (fst (upload L now fresh d c)) \<in> {200, 500}) \<and>
      (length (base64decode L (strip_data_uri img)) = 5242881 \<longrightarrow>
         status (fst (upload L now fresh d c)) = 413)"
    if "field c ''image'' = JStr img" "img \<noteq> []" "truthy (field c ''name'')"
      "field c ''price'' \<noteq> JUndefined" "parseFloat L (field c ''price'') = Some p" "0 \<le> p"
    using upload_size[OF that] by simp
  from users admins up show ?thesis by blast
qed

theorem size_limits_at_the_boundary_witness:
  "length (base64decode testLib (strip_data_uri (data_uri 1398100 ''AA==''))) = 1048576 \<and>
   status (fst (create_users testLib ''64b0000000000000000000a2'' shop
     (account_req ''bob@example.com'' ''secret'' (JStr (data_uri 1398100 ''AA==''))))) = 201 \<and>
   status (fst (create_admins testLib ''64b0000000000000000000a2'' shop
     (account_req ''bob@example.com'' ''secret'' (JStr (data_uri 1398100 ''AA==''))))) = 201 \<and>
   length (base64decode testLib (strip_data_uri (data_uri 1398100 ''AAA=''))) = 1048577 \<and>
   status (fst (create_users testLib ''64b0000000000000000000a2'' shop
     (account_req ''bob@example.com'' ''secret'' (JStr (data_uri 1398100 ''AAA=''))))) = 413 \<and>
   status (fst (create_admins testLib ''64b0000000000000000000a2'' shop
     (account_req ''bob@example.com'' ''secret'' (JStr (data_uri 1398100 ''AAA=''))))) = 413 \<and>
   length (base64decode testLib (strip_data_uri (data_uri 6990504 ''AAA=''))) = 5242880 \<and>
   status (fst (upload testLib 7 ''64b0000000000000000000f2'' shop
     (upload_req (data_uri 6990504 ''AAA='')))) = 200 \<and>
   length (base64decode testLib (strip_data_uri (data_uri 6990504 ''AAAA''))) = 5242881 \<and>
   status (fst (upload testLib 7 ''64b0000000000000000000f2'' shop
     (upload_req (data_uri 6990504 ''AAAA'')))) = 413"
proof -
  let ?b = "\<lambda>t. account_req ''bob@example.com'' ''secret'' (JStr (data_uri 1398100 t))"
  let ?c = "\<lambda>t. upload_req (data_uri 6990504 t)"
  have len: "length (base64decode testLib (strip_data_uri (data_uri 1398100 ''AA==''))) = 1048576"
    "length (base64decode testLib (strip_data_uri (data_uri 1398100 ''AAA=''))) = 1048577"
    "length (base64decode testLib (strip_data_uri (data_uri 6990504 ''AAA=''))) = 5242880"
    "length (base64decode testLib (strip_data_uri (data_uri 6990504 ''AAAA''))) = 5242881"
    by (simp_all add: strip_data_uri_data_uri decode_length)
  have reg: "truthy (field (?b t) ''firstName'') \<and> truthy (field (?b t) ''secondName'') \<and>
    truthy (field (?b t) ''email'') \<and> truthy (field (?b t) ''password'') \<and>
    findOne_email testLib coll (field (?b t) ''email'') = Inr None \<and>
    field (?b t) ''profilePicture'' = JStr (data_uri 1398100 t) \<and>
    startsWith (data_uri 1398100 t) ''data:image/'' \<and>
    image_type (data_uri 1398100 t) \<in> set [Some ''jpeg'', Some ''jpg'', Some ''png'']"
    if "coll = [alice]" for t coll
    using that
    by (simp add: account_req_def findOne_email_def alice_def
        startsWith_data_uri image_type_data_uri)
  have up: "field (?c t) ''image'' = JStr (data_uri 6990504 t) \<and> data_uri 6990504 t \<noteq> [] \<and>
    truthy (field (?c t) ''name'') \<and> field (?c t) ''price'' \<noteq> JUndefined \<and>
    parseFloat testLib (field (?c t) ''price'') = Some 0 \<and> (0::rat) \<le> 0" for t
    by (simp add: upload_req_def data_uri_nonempty testLib_def)
  have cu: "users shop = [alice]" and ca: "admins shop = [alice]"
    by (simp_all add: shop_def)
  note over = size_limits_at_the_boundary[of "?b ''AAA=''" testLib shop
      "data_uri 1398100 ''AAA=''" "''64b0000000000000000000a2''" "?c ''AAAA''"
      "data_uri 6990504 ''AAAA''" 0 7]
  note over' = size_limits_at_the_boundary[of "?b ''AAA=''" testLib shop
      "data_uri 1398100 ''AAA=''" "''64b0000000000000000000f2''" "?c ''AAAA''"
      "data_uri 6990504 ''AAAA''" 0 7]
  have o1: "status (fst (create_users testLib ''64b0000000000000000000a2'' shop
      (?b ''AAA=''))) = 413"
    using over reg[OF cu, of "''AAA=''"] len(2) by blast
  have o2: "status (fst (create_admins testLib ''64b0000000000000000000a2'' shop
      (?b ''AAA=''))) = 413"
    using over reg[OF ca, of "''AAA=''"] len(2) by blast
  have o3: "status (fst (upload testLib 7 ''64b0000000000000000000f2'' shop
      (?c ''AAAA''))) = 413"
    using over' up[of "''AAAA''"] len(4) by blast
  have at: "status (fst (create_users testLib ''64b0000000000000000000a2'' shop
      (?b ''AA==''))) = 201"
    "status (fst (create_admins testLib ''64b0000000000000000000a2'' shop
      (?b ''AA==''))) = 201"
    using run_register_at_limit
    by (simp_all add: create_users_def create_admins_def split_beta shop_def)
  from len o1 o2 o3 at run_upload_at_limit show ?thesis
    by simp
qed

section \<open>The password in the responses\<close>

lemma nokey_error_body: "\<not> has_key ''password'' (error_body m)"
  by (simp add: error_body_def)

lemma nokey_caught: "\<not> has_key ''password'' (body (caught L m e))"
  by (simp add: body_caught)

lemma nokey_map: "(\<And>x. \<not> has_key k (f x)) \<Longrightarrow> \<not> has_key k (JArr (map f xs))"
  by (simp add: list_ex_iff)

lemma nokey_image_json: "\<not> has_key ''password'' (image_json x)"
  by (simp add: image_json_def)

lemma nokey_account_json: "\<not> has_key ''password'' (account_json x)"
  by (simp add: account_json_def)

lemma nokey_item_json: "\<not> has_key ''password'' (item_json x)"
  by (simp add: item_json_def)

lemma nokey_order_json: "\<not> has_key ''password'' (order_json L x)"
  by (simp add: order_json_def list_ex_iff nokey_item_json)

lemma nokey_user_ref: "\<not> has_key ''password'' (user_ref d i)"
  by (simp add: user_ref_def split: option.split)

lemma nokey_product_ref: "\<not> has_key ''password'' (product_ref d i)"
  by (simp add: product_ref_def split: option.split)

lemma nokey_product_doc: "\<not> has_key ''password'' (product_doc d i)"
  by (simp add: product_doc_def nokey_image_json split: option.split)

lemma nokey_populated:
  "(\<And>i. \<not> has_key ''password'' (u i)) \<Longrightarrow> (\<And>i. \<not> has_key ''password'' (p i)) \<Longrightarrow>
     \<not> has_key ''password'' (populated L u p x)"
  by (simp add: populated_def list_ex_iff)

lemma nokey_check_items: "check_items L xs = Reply r \<Longrightarrow> \<not> has_key ''password'' (body r)"
  by (induction xs) (auto simp: body_json nokey_error_body split: sum.splits if_splits)

lemma nokey_check_picture: "check_picture L v = Reply r \<Longrightarrow> \<not> has_key ''password'' (body r)"
  by (auto simp: check_picture_def Let_def body_json nokey_error_body split: if_splits jv.splits)

lemma create_order_replies:
  assumes fail: "\<And>r. \<not> has_key ''password'' (body r) \<Longrightarrow> P (r, d)"
    and ok: "\<And>ord. P (json 201 (JObj [(''order'', order_json L ord)]),
               d\<lparr>orders := orders d @ [ord]\<rparr>)"
  shows "P (create_order L now fresh d b)"
  unfolding create_order_def Let_def
  by (simp add: fail ok body_json nokey_error_body nokey_caught nokey_check_items
      split: sum.split option.split flow.split)

lemma nokey_create_order:
  "\<not> has_key ''password'' (body (fst (create_order L now fresh d b)))"
  by (rule create_order_replies) (simp_all add: body_json nokey_order_json)

lemma nokey_register:
  assumes "\<not> has_key ''password'' (field b ''firstName'')"
    and "\<not> has_key ''password'' (field b ''email'')" and "k \<noteq> ''password''"
  shows "\<not> has_key ''password'' (body (fst (register L fresh m k coll b)))"
  unfolding register_def Let_def using assms
  by (simp add: body_json nokey_error_body nokey_caught nokey_check_picture
      split: sum.split option.split flow.split)

lemma nokey_user_login: "\<not> has_key ''password'' (body (user_login L d b))"
  unfolding user_login_def Let_def
  by (simp add: body_json nokey_error_body nokey_caught split: sum.split option.split)

lemma nokey_admin_login: "\<not> has_key ''password'' (body (admin_login L d b))"
  unfolding admin_login_def Let_def
  by (simp add: body_json nokey_error_body nokey_caught split: sum.split option.split)

lemma nokey_admin_profile: "\<not> has_key ''password'' (body (admin_profile L d q))"
  unfolding admin_profile_def Let_def
  by (simp add: body_json nokey_error_body nokey_caught nokey_account_json split: sum.split option.split)

lemma nokey_admin_admins: "\<not> has_key ''password'' (body (admin_admins d))"
  unfolding admin_admins_def body_json by (rule nokey_map) (rule nokey_account_json)

lemma nokey_admin_users: "\<not> has_key ''password'' (body (admin_users d))"
  unfolding admin_users_def body_json by (rule nokey_map) (rule nokey_account_json)

lemma nokey_get_images: "\<not> has_key ''password'' (body (get_images d))"
  unfolding get_images_def body_json by (rule nokey_map) (rule nokey_image_json)

lemma nokey_cart_items: "\<not> has_key ''password'' (body (cart_items L d b))"
  unfolding cart_items_def
  by (simp add: body_json nokey_error_body nokey_caught nokey_map nokey_image_json
      split: sum.split jv.split del: has_key.simps)

lemma nokey_upload: "\<not> has_key ''password'' (body (fst (upload L now fresh d b)))"
  unfolding upload_def Let_def
  by (simp add: body_json nokey_error_body nokey_caught
      split: sum.split option.split jv.split)

lemma nokey_delete_image: "\<not> has_key ''password'' (body (fst (delete_image L d i)))"
  unfolding delete_image_def
  by (simp add: body_json nokey_error_body nokey_caught split: sum.split option.split)

lemma nokey_get_orders: "\<not> has_key ''password'' (body (get_orders L d))"
  unfolding get_orders_def body_json
  by (rule nokey_map) (simp add: nokey_populated nokey_user_ref nokey_product_ref)

lemma nokey_get_order: "\<not> has_key ''password'' (body (get_order L d i))"
  unfolding get_order_def
  by (simp add: body_json nokey_error_body nokey_caught nokey_populated nokey_product_doc
      split: sum.split option.split)


lemma key_register:
  assumes "k \<noteq> ''password''"
  shows "has_key ''password'' (body (fst (register L fresh m k coll b))) \<longrightarrow>
     has_key ''password'' (field b ''firstName'') \<or> has_key ''password'' (field b ''email'')"
  using nokey_register[OF _ _ assms] by blast

subsection \<open>The responses do not depend on the stored passwords\<close>

lemma forget_simps:
  "acc_id (forget a) = acc_id a" "firstName (forget a) = firstName a"
  "secondName (forget a) = secondName a" "email (forget a) = email a"
  "profilePicture (forget a) = profilePicture a"
  by (simp_all add: forget_def)

lemma without_passwords_simps:
  "users (without_passwords d) = map forget (users d)"
  "admins (without_passwords d) = map forget (admins d)"
  "images (without_passwords d) = images d"
  "orders (without_passwords d) = orders d"
  by (simp_all add: without_passwords_def)

lemma find_forget:
  "(\<And>a. P (forget a) = P a) \<Longrightarrow> find P (map forget xs) = map_option forget (find P xs)"
  by (induction xs) simp_all

lemma findOne_email_forget:
  "findOne_email L (map forget coll) v =
     (case findOne_email L coll v of Inl e \<Rightarrow> Inl e | Inr x \<Rightarrow> Inr (map_option forget x))"
  by (simp add: findOne_email_def find_forget forget_simps split: jv.split option.split)

lemma findById_forget:
  "findById L acc_id (map forget coll) v =
     (case findById L acc_id coll v of Inl e \<Rightarrow> Inl e | Inr x \<Rightarrow> Inr (map_option forget x))"
  by (simp add: findById_def find_forget forget_simps split: option.split)

lemma account_json_forget: "account_json (forget a) = account_json a"
  by (simp add: account_json_def forget_simps)

lemma user_ref_forget: "user_ref (without_passwords d) = user_ref d"
  by (rule ext) (simp add: user_ref_def without_passwords_simps find_forget forget_simps
      split: option.split)

lemma product_ref_forget: "product_ref (without_passwords d) = product_ref d"
  by (rule ext) (simp add: product_ref_def without_passwords_simps)

lemma product_doc_forget: "product_doc (without_passwords d) = product_doc d"
  by (rule ext) (simp add: product_doc_def without_passwords_simps)

lemma ni_admin_profile: "admin_profile L (without_passwords d) q = admin_profile L d q"
  by (simp add: admin_profile_def Let_def without_passwords_simps findOne_email_forget
      account_json_forget split: sum.split option.split)

lemma ni_admin_admins: "admin_admins (without_passwords d) = admin_admins d"
  by (simp add: admin_admins_def without_passwords_simps account_json_forget comp_def)

lemma ni_admin_users: "admin_users (without_passwords d) = admin_users d"
  by (simp add: admin_users_def without_passwords_simps account_json_forget comp_def)

lemma ni_get_images: "get_images (without_passwords d) = get_images d"
  by (simp add: get_images_def without_passwords_simps)

lemma ni_cart_items: "cart_items L (without_passwords d) b = cart_items L d b"
  by (simp add: cart_items_def without_passwords_simps split: jv.split)

lemma ni_get_orders: "get_orders L (without_passwords d) = get_orders L d"
  by (simp add: get_orders_def without_passwords_simps product_ref_forget user_ref_forget)

lemma ni_get_order: "get_order L (without_passwords d) i = get_order L d i"
  by (simp add: get_order_def without_passwords_simps product_doc_forget
      split: sum.split option.split)

lemma ni_delete_image:
  "fst (delete_image L (without_passwords d) i) = fst (delete_image L d i)"
  by (simp add: delete_image_def without_passwords_simps split: sum.split option.split)

lemma ni_upload:
  "fst (upload L now fresh (without_passwords d) b) = fst (upload L now fresh d b)"
  by (simp add: upload_def Let_def without_passwords_simps
      split: sum.split option.split jv.split)

lemma ni_create_order:
  "fst (create_order L now fresh (without_passwords d) b) = fst (create_order L now fresh d b)"
  unfolding create_order_def Let_def
  by (simp add: without_passwords_simps findById_forget
      split: sum.split option.split flow.split)

lemma hash_blind_simps:
  "queryOther (hash_blind L) = queryOther L" "castStringOther (hash_blind L) = castStringOther L"
  "base64decode (hash_blind L) = base64decode L" "message (hash_blind L) = message L"
  "bcrypt_hash (hash_blind L) v = map_option mask (bcrypt_hash L v)"
  by (simp_all add: hash_blind_def)

lemma compare_fixed_simps:
  "queryOther (compare_fixed L c) = queryOther L" "message (compare_fixed L c) = message L"
  "bcrypt_compare (compare_fixed L c) p h = c"
  by (simp_all add: compare_fixed_def)

lemma findOne_email_hash_blind: "findOne_email (hash_blind L) = findOne_email L"
  by (intro ext) (simp add: findOne_email_def hash_blind_simps split: jv.split)

lemma findOne_email_compare_fixed: "findOne_email (compare_fixed L c) = findOne_email L"
  by (intro ext) (simp add: findOne_email_def compare_fixed_simps split: jv.split)

lemma caught_hash_blind: "caught (hash_blind L) = caught L"
  by (intro ext) (simp add: caught_def hash_blind_simps)

lemma caught_compare_fixed: "caught (compare_fixed L c) = caught L"
  by (intro ext) (simp add: caught_def compare_fixed_simps)

lemma check_picture_hash_blind: "check_picture (hash_blind L) = check_picture L"
  by (intro ext) (simp add: check_picture_def hash_blind_simps Let_def split: jv.split)

lemma cast_string_hash_blind: "cast_string (hash_blind L) v = cast_string L v"
  by (cases v) (simp_all add: hash_blind_simps)

lemma required_string_hash_blind: "required_string (hash_blind L) = required_string L"
  by (intro ext) (simp add: required_string_def cast_string_hash_blind)

lemma Account_create_blind:
  "Account_create (hash_blind L) fresh (map forget coll) f s e (mask h) p =
     map_sum id (\<lambda>a. a\<lparr>password := mask h\<rparr>) (Account_create L fresh coll f s e h p)"
  by (simp add: Account_create_def required_string_hash_blind forget_simps comp_def mask_def
      split: option.split)

lemma ni_register:
  "fst (register (hash_blind L) fresh m k (map forget coll) b) = fst (register L fresh m k coll b)"
  unfolding register_def Let_def
  by (simp add: findOne_email_hash_blind findOne_email_forget caught_hash_blind
      check_picture_hash_blind hash_blind_simps(5) Account_create_blind
      split: sum.split option.split flow.split)

lemma ni_user_login:
  "user_login (compare_fixed L (compare_outcome L (users d) b)) (without_passwords d) b =
     user_login L d b"
  unfolding user_login_def Let_def compare_outcome_def
  by (simp add: findOne_email_compare_fixed findOne_email_forget caught_compare_fixed
      compare_fixed_simps without_passwords_simps forget_simps
      split: sum.split option.split)

lemma ni_admin_login:
  "admin_login (compare_fixed L (compare_outcome L (admins d) b)) (without_passwords d) b =
     admin_login L d b"
  unfolding admin_login_def Let_def compare_outcome_def
  by (simp add: findOne_email_compare_fixed findOne_email_forget caught_compare_fixed
      compare_fixed_simps without_passwords_simps forget_simps
      split: sum.split option.split)

text \<open>
  C7.  No response holds a stored password, for every handler and every input.
  \<^item> Every response is the one the handler gives on the database with all stored passwords
    wiped.  For a registration the hash of the new password is masked as well; for a login
    the comparison is replaced by its outcome, the one use of the stored hash.  So nothing
    of a stored hash reaches a payload, under whatever key.
  \<^item> In the body of every response no object at any depth has a key \<^verbatim>\<open>password\<close>; the one
    exception is the 201 of a registration, which returns \<^verbatim>\<open>firstName\<close> and \<^verbatim>\<open>email\<close> as the
    request sent them, and can hold such a key only inside those two values of the caller.
\<close>

theorem password_never_in_response:
  "fst (create_users L fresh d b) =
     fst (create_users (hash_blind L) fresh (without_passwords d) b) \<and>
   fst (create_admins L fresh d b) =
     fst (create_admins (hash_blind L) fresh (without_passwords d) b) \<and>
   user_login L d b =
     user_login (compare_fixed L (compare_outcome L (users d) b)) (without_passwords d) b \<and>
   admin_login L d b =
     admin_login (compare_fixed L (compare_outcome L (admins d) b)) (without_passwords d) b \<and>
   admin_profile L d b = admin_profile L (without_passwords d) b \<and>
   admin_admins d = admin_admins (without_passwords d) \<and>
   admin_users d = admin_users (without_passwords d) \<and>
   fst (upload L now fresh d b) = fst (upload L now fresh (without_passwords d) b) \<and>
   get_images d = get_images (without_passwords d) \<and>
   cart_items L d b = cart_items L (without_passwords d) b \<and>
   fst (delete_image L d i) = fst (delete_image L (without_passwords d) i) \<and>
   fst (create_order L now fresh d b) =
     fst (create_order L now fresh (without_passwords d) b) \<and>
   get_orders L d = get_orders L (without_passwords d) \<and>
   get_order L d i = get_order L (without_passwords d) i \<and>
   (has_key ''password'' (body (fst (create_users L fresh d b))) \<longrightarrow>
      has_key ''password'' (field b ''firstName'') \<or>
      has_key ''password'' (field b ''email'')) \<and>
   (has_key ''password'' (body (fst (create_admins L fresh d b))) \<longrightarrow>
      has_key ''password'' (field b ''firstName'') \<or>
      has_key ''password'' (field b ''email'')) \<and>
   \<not> has_key ''password'' (body (user_login L d b)) \<and>
   \<not> has_key ''password'' (body (admin_login L d b)) \<and>
   \<not> has_key ''password'' (body (admin_profile L d b)) \<and>
   \<not> has_key ''password'' (body (admin_admins d)) \<and>
   \<not> has_key ''password'' (body (admin_users d)) \<and>
   \<not> has_key ''password'' (body (fst (upload L now fresh d b))) \<and>
   \<not> has_key ''password'' (body (get_images d)) \<and>
   \<not> has_key ''password'' (body (cart_items L d b)) \<and>
   \<not> has_key ''password'' (body (fst (delete_image L d i))) \<and>
   \<not> has_key ''password'' (body (fst (create_order L now fresh d b))) \<and>
   \<not> has_key ''password'' (body (get_orders L d)) \<and>
   \<not> has_key ''password'' (body (get_order L d i))"
proof -
  have users: "fst (create_users L fresh d b) =
      fst (create_users (hash_blind L) fresh (without_passwords d) b)"
    using ni_register[of L fresh "''User registered successfully''" "''user''" "users d" b]
    by (simp add: create_users_def split_beta without_passwords_simps)
  have admins: "fst (create_admins L fresh d b) =
      fst (create_admins (hash_blind L) fresh (without_passwords d) b)"
    using ni_register[of L fresh "''Admin registered successfully''" "''admin''" "admins d" b]
    by (simp add: create_admins_def split_beta without_passwords_simps)
  have kusers: "has_key ''password'' (body (fst (create_users L fresh d b))) \<longrightarrow>
      has_key ''password'' (field b ''firstName'') \<or>
      has_key ''password'' (field b ''email'')"
    using key_register[of "''user''" L fresh "''User registered successfully''" "users d" b]
    by (simp add: create_users_def split_beta)
  have kadmins: "has_key ''password'' (body (fst (create_admins L fresh d b))) \<longrightarrow>
      has_key ''password'' (field b ''firstName'') \<or>
      has_key ''password'' (field b ''email'')"
    using key_register[of "''admin''" L fresh "''Admin registered successfully''" "admins d" b]
    by (simp add: create_admins_def split_beta)
  show ?thesis
    by (intro conjI users admins kusers kadmins
        ni_user_login[symmetric] ni_admin_login[symmetric] ni_admin_profile[symmetric]
        ni_admin_admins[symmetric] ni_admin_users[symmetric] ni_upload[symmetric]
        ni_get_images[symmetric] ni_cart_items[symmetric] ni_delete_image[symmetric]
        ni_create_order[symmetric] ni_get_orders[symmetric] ni_get_order[symmetric]
        nokey_user_login nokey_admin_login nokey_admin_profile nokey_admin_admins
        nokey_admin_users nokey_upload nokey_get_images nokey_cart_items nokey_delete_image
        nokey_create_order nokey_get_orders nokey_get_order)
qed

lemma run_login_alice:
  "user_login testLib shop (login_req ''alice@example.com'' ''wonderland'') =
     json 200 (JObj [(''message'', JStr ''Login successful''),
       (''user'', JObj [(''_id'', JStr ''64b0000000000000000000a1''),
          (''firstName'', JStr ''Alice''), (''secondName'', JStr ''Ames''),
          (''email'', JStr ''alice@example.com''), (''profilePicture'', JStr [])])])"
  by (simp add: user_login_def login_req_def findOne_email_def shop_def alice_def testLib_def)

lemma run_register_bob:
  "status (fst (create_users testLib ''64b0000000000000000000a2'' shop
      (account_req ''bob@example.com'' ''secret'' JUndefined))) = 201"
  by (simp add: create_users_def register_def account_req_def findOne_email_def shop_def
      alice_def testLib_def check_picture_def Account_create_def required_string_def
      status_json)

theorem password_never_in_response_witness:
  "password alice = ''$2b$10$wonderland'' \<and>
   user_login testLib shop (login_req ''alice@example.com'' ''wonderland'') =
     user_login (compare_fixed testLib (Some True)) (without_passwords shop)
       (login_req ''alice@example.com'' ''wonderland'') \<and>
   status (user_login testLib shop (login_req ''alice@example.com'' ''wonderland'')) = 200 \<and>
   \<not> has_key ''password''
       (body (user_login testLib shop (login_req ''alice@example.com'' ''wonderland''))) \<and>
   status (fst (create_users testLib ''64b0000000000000000000a2'' shop
      (account_req ''bob@example.com'' ''secret'' JUndefined))) = 201 \<and>
   fst (create_users testLib ''64b0000000000000000000a2'' shop
      (account_req ''bob@example.com'' ''secret'' JUndefined)) =
     fst (create_users (hash_blind testLib) ''64b0000000000000000000a2''
       (without_passwords shop) (account_req ''bob@example.com'' ''secret'' JUndefined)) \<and>
   \<not> has_key ''password'' (body (fst (create_users testLib ''64b0000000000000000000a2'' shop
      (account_req ''bob@example.com'' ''secret'' JUndefined)))) \<and>
   body (admin_users shop) = JArr [account_json alice] \<and>
   admin_users shop = admin_users (without_passwords shop) \<and>
   \<not> has_key ''password'' (body (admin_users shop))"
proof -
  let ?l = "login_req ''alice@example.com'' ''wonderland''"
  let ?r = "account_req ''bob@example.com'' ''secret'' JUndefined"
  note login = password_never_in_response[of testLib "''64b0000000000000000000a2''" shop ?l]
  note reg = password_never_in_response[of testLib "''64b0000000000000000000a2''" shop ?r]
  have p: "password alice = ''$2b$10$wonderland''"
    by (simp add: alice_def)
  have o: "compare_outcome testLib (users shop) ?l = Some True"
    by (simp add: compare_outcome_def login_req_def findOne_email_def shop_def alice_def
        testLib_def)
  have s: "status (user_login testLib shop ?l) = 200"
    by (simp add: run_login_alice status_json)
  have a: "body (admin_users shop) = JArr [account_json alice]"
    by (simp add: admin_users_def body_json shop_def)
  have h: "\<not> has_key ''password'' (field ?r ''firstName'')"
    "\<not> has_key ''password'' (field ?r ''email'')"
    by (simp_all add: account_req_def)
  from login o have l1: "user_login testLib shop ?l =
     user_login (compare_fixed testLib (Some True)) (without_passwords shop) ?l"
    by simp
  from login have l2: "\<not> has_key ''password'' (body (user_login testLib shop ?l))"
    and l3: "admin_users shop = admin_users (without_passwords shop)"
    and l4: "\<not> has_key ''password'' (body (admin_users shop))"
    by blast+
  from reg have r1: "fst (create_users testLib ''64b0000000000000000000a2'' shop ?r) =
     fst (create_users (hash_blind testLib) ''64b0000000000000000000a2''
       (without_passwords shop) ?r)"
    by blast
  from reg h have r2: "\<not> has_key ''password''
      (body (fst (create_users testLib ''64b0000000000000000000a2'' shop ?r)))"
    by blast
  from p l1 s l2 run_register_bob r1 r2 a l3 l4 show ?thesis
    by blast
qed

end
